theory Spec2Isabelle
  imports Complex_Main "HOL-Library.Log_Nat"
begin

section \<open>Go library functions used by the fonero cache plugin\<close>

subsection \<open>strings.Join and strings.Split\<close>

text \<open>
  Go strings are byte sequences: \<^typ>\<open>string\<close>. The plugin only ever joins and
  splits on the one-byte separator \<^verbatim>\<open>","\<close>, so the separator of \<open>Split\<close> is a
  character. \<^verbatim>\<open>strings.Split("", ",")\<close> is the one-element slice holding the empty
  string.
\<close>

fun Join :: "string list \<Rightarrow> string \<Rightarrow> string" where
  "Join [] sep = []"
| "Join [x] sep = x"
| "Join (x # y # ys) sep = x @ sep @ Join (y # ys) sep"

fun Split :: "string \<Rightarrow> char \<Rightarrow> string list" where
  "Split [] sep = [[]]"
| "Split (c # cs) sep =
     (let r = Split cs sep in if c = sep then [] # r else (c # hd r) # tl r)"

subsection \<open>strconv.FormatUint, fmt.Sprint on a uint64, strconv.ParseUint\<close>

definition digit_char :: "nat \<Rightarrow> char" where
  "digit_char d = ''0123456789abcdefghijklmnopqrstuvwxyz'' ! d"

text \<open>\<^verbatim>\<open>strconv.FormatUint(n, base)\<close>; the plugin calls it with base 10 and base 16.\<close>

function FormatUint :: "nat \<Rightarrow> nat \<Rightarrow> string" where
  "FormatUint n base =
     (if base < 2 \<or> n < base then [digit_char n]
      else FormatUint (n div base) base @ [digit_char (n mod base)])"
  by pat_completeness auto
termination
  by (relation "measure fst") auto

declare FormatUint.simps [simp del]

text \<open>\<^verbatim>\<open>fmt.Sprint(x)\<close> of a \<^verbatim>\<open>uint64\<close> is its decimal rendering.\<close>

definition Sprint_uint64 :: "nat \<Rightarrow> string" where
  "Sprint_uint64 n = FormatUint n 10"

datatype error =
    ErrRecordNotFound          \<comment> \<open>\<^verbatim>\<open>gorm.ErrRecordNotFound\<close>\<close>
  | cache_ErrRecordNotFound    \<comment> \<open>\<^verbatim>\<open>cache.ErrRecordNotFound\<close>\<close>
  | cache_ErrInvalidPluginCmd  \<comment> \<open>\<^verbatim>\<open>cache.ErrInvalidPluginCmd\<close>\<close>
  | ErrSyntax                  \<comment> \<open>\<^verbatim>\<open>strconv.ErrSyntax\<close>\<close>
  | ErrRange                   \<comment> \<open>\<^verbatim>\<open>strconv.ErrRange\<close>\<close>
  | ErrDecode string           \<comment> \<open>an error of the payload codec\<close>
  | ErrStorage                 \<comment> \<open>an error of the database driver\<close>
  | ErrUniqueViolation         \<comment> \<open>a duplicate primary key on insert\<close>
  | Errorf string error        \<comment> \<open>\<^verbatim>\<open>fmt.Errorf("<context>: %v", err)\<close>\<close>

definition digit_val :: "char \<Rightarrow> nat option" where
  "digit_val c = (let n = (of_char c :: nat) in if 48 \<le> n \<and> n \<le> 57 then Some (n - 48) else None)"

fun parse_digits :: "string \<Rightarrow> nat \<Rightarrow> nat option" where
  "parse_digits [] acc = Some acc"
| "parse_digits (c # cs) acc =
     (case digit_val c of None \<Rightarrow> None | Some d \<Rightarrow> parse_digits cs (acc * 10 + d))"

text \<open>\<^verbatim>\<open>strconv.ParseUint(s, 10, 64)\<close>: decimal digits only, no sign, at most \<open>2^64 - 1\<close>.\<close>

definition ParseUint :: "string \<Rightarrow> error + nat" where
  "ParseUint s =
     (if s = [] then Inl ErrSyntax
      else case parse_digits s 0 of
             None \<Rightarrow> Inl ErrSyntax
           | Some n \<Rightarrow> if n < 2 ^ 64 then Inr n else Inl ErrRange)"

subsection \<open>float64 arithmetic\<close>

text \<open>
  \<^verbatim>\<open>newVoteResults\<close> computes its thresholds in \<^verbatim>\<open>float64\<close>. A finite non-negative
  double is the rational it denotes; every operation returns the exact result rounded to
  the nearest double, ties to even (IEEE 754 binary64, 53 significant bits). The values
  that occur are products of a percentage and a count, far from the overflow and
  subnormal ranges, which are not modelled.
\<close>

definition ilog2 :: "rat \<Rightarrow> int" where
  \<comment> \<open>for \<open>x > 0\<close>, the \<open>e\<close> with \<open>2^e \<le> x < 2^(e+1)\<close>\<close>
  "ilog2 x =
     (let (a, b) = quotient_of x;
          d = bitlen a - bitlen b
      in if (if 0 \<le> d then 2 ^ nat d \<le> x else 1 \<le> x * 2 ^ nat (- d)) then d else d - 1)"

definition pow2 :: "int \<Rightarrow> rat" where
  "pow2 e = (if 0 \<le> e then 2 ^ nat e else 1 / 2 ^ nat (- e))"

definition round_half_even :: "rat \<Rightarrow> int" where
  "round_half_even x =
     (let n = \<lfloor>x\<rfloor>; r = x - of_int n
      in if r < 1 / 2 then n else if 1 / 2 < r then n + 1 else if even n then n else n + 1)"

definition f64_round :: "rat \<Rightarrow> rat" where
  "f64_round x =
     (if x \<le> 0 then 0
      else let u = pow2 (ilog2 x - 52) in u * of_int (round_half_even (x / u)))"

definition float64 :: "nat \<Rightarrow> rat" where
  \<comment> \<open>the conversion \<^verbatim>\<open>float64(n)\<close> of an unsigned integer\<close>
  "float64 n = f64_round (of_nat n)"

definition f64_div :: "rat \<Rightarrow> rat \<Rightarrow> rat" where
  "f64_div x y = f64_round (x / y)"

definition f64_mul :: "rat \<Rightarrow> rat \<Rightarrow> rat" where
  "f64_mul x y = f64_round (x * y)"

definition uint64_of_float64 :: "rat \<Rightarrow> nat" where
  \<comment> \<open>the conversion \<^verbatim>\<open>uint64(x)\<close>: truncation towards zero (for \<open>0 \<le> x < 2^64\<close>)\<close>
  "uint64_of_float64 x = nat \<lfloor>x\<rfloor>"

section \<open>Data model\<close>

subsection \<open>Plugin payload structures (package foneroplugin)\<close>

text \<open>
  The commands and replies the plugin exchanges. Their declarations are not part of the
  files at hand; each record has the fields the cache code reads or writes. \<^verbatim>\<open>uint32\<close>
  and \<^verbatim>\<open>uint64\<close> values are natural numbers (no arithmetic on them can overflow
  here), \<^verbatim>\<open>int64\<close> and \<^verbatim>\<open>int\<close> values are integers. A nil slice and an empty slice
  are both the empty list.
\<close>

record NewComment =
  nc_Token :: string
  nc_ParentID :: string
  nc_Comment :: string
  nc_Signature :: string
  nc_PublicKey :: string

record NewCommentReply =
  ncr_CommentID :: string
  ncr_Receipt :: string
  ncr_Timestamp :: int

record plugin_Comment =
  pc_Token :: string
  pc_ParentID :: string
  pc_Comment :: string
  pc_Signature :: string
  pc_PublicKey :: string
  pc_CommentID :: string
  pc_Receipt :: string
  pc_Timestamp :: int
  pc_TotalVotes :: nat
  pc_ResultVotes :: int
  pc_Censored :: bool

record plugin_LikeComment =
  plc_Token :: string
  plc_CommentID :: string
  plc_Action :: string
  plc_Signature :: string
  plc_PublicKey :: string

record CensorComment =
  cc_Token :: string
  cc_CommentID :: string

record GetComment =
  gc_Token :: string
  gc_CommentID :: string

record GetCommentReply =
  gcr_Comment :: plugin_Comment

record GetComments =
  gcs_Token :: string

record GetCommentsReply =
  gcsr_Comments :: "plugin_Comment list"

record CommentLikes =
  cl_Token :: string
  cl_CommentID :: string

record CommentLikesReply =
  clr_CommentLikes :: "plugin_LikeComment list"

record GetProposalCommentsLikes =
  gpcl_Token :: string

record GetProposalCommentsLikesReply =
  gpclr_CommentsLikes :: "plugin_LikeComment list"

record plugin_AuthorizeVote =
  pav_Action :: string
  pav_Token :: string
  pav_Signature :: string
  pav_PublicKey :: string
  pav_Receipt :: string
  pav_Timestamp :: int

record AuthorizeVoteReply =
  avr_RecordVersion :: string
  avr_Receipt :: string
  avr_Timestamp :: int

record plugin_VoteOption =
  pvo_Id :: string
  pvo_Description :: string
  pvo_Bits :: nat

record Vote =
  v_Token :: string
  v_Mask :: nat
  v_Duration :: nat
  v_QuorumPercentage :: nat
  v_PassPercentage :: nat
  v_Options :: "plugin_VoteOption list"

record plugin_StartVote =
  psv_PublicKey :: string
  psv_Vote :: Vote
  psv_Signature :: string

record StartVoteReply =
  svr_StartBlockHeight :: string
  svr_StartBlockHash :: string
  svr_EndHeight :: string
  svr_EligibleTickets :: "string list"

record VoteDetails =
  vd_Token :: string

record VoteDetailsReply =
  vdr_AuthorizeVote :: plugin_AuthorizeVote
  vdr_StartVote :: plugin_StartVote
  vdr_StartVoteReply :: StartVoteReply

record plugin_CastVote =
  pcv_Token :: string
  pcv_Ticket :: string
  pcv_VoteBit :: string
  pcv_Signature :: string

record Ballot =
  b_Votes :: "plugin_CastVote list"

record plugin_VoteResults =
  pvr_Token :: string

record VoteResultsReply =
  vrr_StartVote :: plugin_StartVote
  vrr_CastVotes :: "plugin_CastVote list"

record InventoryReply =
  ir_Comments :: "plugin_Comment list"

record LoadVoteResults =
  lvr_BestBlock :: nat

record TokenInventory =
  ti_BestBlock :: nat

record TokenInventoryReply =
  tir_Pre :: "string list"
  tir_Active :: "string list"
  tir_Approved :: "string list"
  tir_Rejected :: "string list"
  tir_Abandoned :: "string list"

record VoteSummary =
  vs_Token :: string

record plugin_VoteOptionResult =
  pvor_ID :: string
  pvor_Description :: string
  pvor_Bits :: nat
  pvor_Votes :: nat

record VoteSummaryReply =
  vsr_Authorized :: bool
  vsr_EndHeight :: string
  vsr_EligibleTicketCount :: int
  vsr_QuorumPercentage :: nat
  vsr_PassPercentage :: nat
  vsr_Results :: "plugin_VoteOptionResult list"

subsection \<open>Rows of the cache tables (package cockroachdb)\<close>

text \<open>
  One record per table row, with the columns the conversion functions fill. A
  \<open>StartVote\<close> row carries its \<open>Options\<close> and a \<open>VoteResults\<close> row its \<open>Results\<close>:
  the rows of the association tables, written with their parent and loaded back by
  \<^verbatim>\<open>Preload\<close>.
\<close>

record Comment =
  c_Key :: string
  c_Token :: string
  c_ParentID :: string
  c_Comment :: string
  c_Signature :: string
  c_PublicKey :: string
  c_CommentID :: string
  c_Receipt :: string
  c_Timestamp :: int
  c_Censored :: bool

record LikeComment =
  lc_Token :: string
  lc_CommentID :: string
  lc_Action :: string
  lc_Signature :: string
  lc_PublicKey :: string

record AuthorizeVote =
  av_Key :: string
  av_Token :: string
  av_Version :: nat
  av_Action :: string
  av_Signature :: string
  av_PublicKey :: string
  av_Receipt :: string
  av_Timestamp :: int

record VoteOption =
  vo_Token :: string
  vo_ID :: string
  vo_Description :: string
  vo_Bits :: nat

record StartVote =
  sv_Token :: string
  sv_Mask :: nat
  sv_Duration :: nat
  sv_QuorumPercentage :: nat
  sv_PassPercentage :: nat
  sv_Options :: "VoteOption list"
  sv_PublicKey :: string
  sv_Signature :: string
  sv_StartBlockHeight :: string
  sv_StartBlockHash :: string
  sv_EndHeight :: nat
  sv_EligibleTickets :: string
  sv_EligibleTicketCount :: int

record CastVote =
  cv_Token :: string
  cv_Ticket :: string
  cv_VoteBit :: string
  cv_Signature :: string
  cv_TokenVoteBit :: string

record VoteOptionResult =
  vor_Key :: string
  vor_Votes :: nat
  vor_Option :: VoteOption

record VoteResults =
  vr_Token :: string
  vr_Approved :: bool
  vr_Results :: "VoteOptionResult list"

text \<open>The columns of a \<open>records\<close> row that the plugin's queries read.\<close>

record Record =
  r_Token :: string
  r_Version :: nat
  r_Status :: int
  r_Timestamp :: int

subsection \<open>Conversions between payloads and rows\<close>

definition convertNewCommentFromFonero :: "NewComment \<Rightarrow> NewCommentReply \<Rightarrow> Comment" where
  "convertNewCommentFromFonero nc ncr =
     \<lparr>c_Key = nc_Token nc @ ncr_CommentID ncr,
      c_Token = nc_Token nc,
      c_ParentID = nc_ParentID nc,
      c_Comment = nc_Comment nc,
      c_Signature = nc_Signature nc,
      c_PublicKey = nc_PublicKey nc,
      c_CommentID = ncr_CommentID ncr,
      c_Receipt = ncr_Receipt ncr,
      c_Timestamp = ncr_Timestamp ncr,
      c_Censored = False\<rparr>"

definition convertCommentToFonero :: "Comment \<Rightarrow> plugin_Comment" where
  "convertCommentToFonero c =
     \<lparr>pc_Token = c_Token c,
      pc_ParentID = c_ParentID c,
      pc_Comment = c_Comment c,
      pc_Signature = c_Signature c,
      pc_PublicKey = c_PublicKey c,
      pc_CommentID = c_CommentID c,
      pc_Receipt = c_Receipt c,
      pc_Timestamp = c_Timestamp c,
      pc_TotalVotes = 0,
      pc_ResultVotes = 0,
      pc_Censored = c_Censored c\<rparr>"

definition convertLikeCommentFromFonero :: "plugin_LikeComment \<Rightarrow> LikeComment" where
  "convertLikeCommentFromFonero lc =
     \<lparr>lc_Token = plc_Token lc,
      lc_CommentID = plc_CommentID lc,
      lc_Action = plc_Action lc,
      lc_Signature = plc_Signature lc,
      lc_PublicKey = plc_PublicKey lc\<rparr>"

definition convertLikeCommentToFonero :: "LikeComment \<Rightarrow> plugin_LikeComment" where
  "convertLikeCommentToFonero lc =
     \<lparr>plc_Token = lc_Token lc,
      plc_CommentID = lc_CommentID lc,
      plc_Action = lc_Action lc,
      plc_Signature = lc_Signature lc,
      plc_PublicKey = lc_PublicKey lc\<rparr>"

definition convertAuthorizeVoteFromFonero ::
  "plugin_AuthorizeVote \<Rightarrow> AuthorizeVoteReply \<Rightarrow> nat \<Rightarrow> AuthorizeVote" where
  "convertAuthorizeVoteFromFonero av avr version =
     \<lparr>av_Key = pav_Token av @ avr_RecordVersion avr,
      av_Token = pav_Token av,
      av_Version = version,
      av_Action = pav_Action av,
      av_Signature = pav_Signature av,
      av_PublicKey = pav_PublicKey av,
      av_Receipt = avr_Receipt avr,
      av_Timestamp = avr_Timestamp avr\<rparr>"

definition convertAuthorizeVoteToFonero :: "AuthorizeVote \<Rightarrow> plugin_AuthorizeVote" where
  "convertAuthorizeVoteToFonero av =
     \<lparr>pav_Action = av_Action av,
      pav_Token = av_Token av,
      pav_Signature = av_Signature av,
      pav_PublicKey = av_PublicKey av,
      pav_Receipt = av_Receipt av,
      pav_Timestamp = av_Timestamp av\<rparr>"

definition convertStartVoteFromFonero ::
  "plugin_StartVote \<Rightarrow> StartVoteReply \<Rightarrow> nat \<Rightarrow> StartVote" where
  "convertStartVoteFromFonero sv svr endHeight =
     (let opts = map (\<lambda>v. \<lparr>vo_Token = v_Token (psv_Vote sv),
                              vo_ID = pvo_Id v,
                              vo_Description = pvo_Description v,
                              vo_Bits = pvo_Bits v\<rparr>) (v_Options (psv_Vote sv))
      in \<lparr>sv_Token = v_Token (psv_Vote sv),
          sv_Mask = v_Mask (psv_Vote sv),
          sv_Duration = v_Duration (psv_Vote sv),
          sv_QuorumPercentage = v_QuorumPercentage (psv_Vote sv),
          sv_PassPercentage = v_PassPercentage (psv_Vote sv),
          sv_Options = opts,
          sv_PublicKey = psv_PublicKey sv,
          sv_Signature = psv_Signature sv,
          sv_StartBlockHeight = svr_StartBlockHeight svr,
          sv_StartBlockHash = svr_StartBlockHash svr,
          sv_EndHeight = endHeight,
          sv_EligibleTickets = Join (svr_EligibleTickets svr) '','',
          sv_EligibleTicketCount = int (length (svr_EligibleTickets svr))\<rparr>)"

definition convertStartVoteToFonero :: "StartVote \<Rightarrow> plugin_StartVote \<times> StartVoteReply" where
  "convertStartVoteToFonero sv =
     (let opts = map (\<lambda>v. \<lparr>pvo_Id = vo_ID v,
                              pvo_Description = vo_Description v,
                              pvo_Bits = vo_Bits v\<rparr>) (sv_Options sv);
          dsv = \<lparr>psv_PublicKey = sv_PublicKey sv,
                 psv_Vote = \<lparr>v_Token = sv_Token sv,
                             v_Mask = sv_Mask sv,
                             v_Duration = sv_Duration sv,
                             v_QuorumPercentage = sv_QuorumPercentage sv,
                             v_PassPercentage = sv_PassPercentage sv,
                             v_Options = opts\<rparr>,
                 psv_Signature = sv_Signature sv\<rparr>;
          tix = (if sv_EligibleTickets sv \<noteq> [] then Split (sv_EligibleTickets sv) (CHR '','') else []);
          dsvr = \<lparr>svr_StartBlockHeight = sv_StartBlockHeight sv,
                  svr_StartBlockHash = sv_StartBlockHash sv,
                  svr_EndHeight = Sprint_uint64 (sv_EndHeight sv),
                  svr_EligibleTickets = tix\<rparr>
      in (dsv, dsvr))"

definition convertCastVoteFromFonero :: "plugin_CastVote \<Rightarrow> CastVote" where
  "convertCastVoteFromFonero cv =
     \<lparr>cv_Token = pcv_Token cv,
      cv_Ticket = pcv_Ticket cv,
      cv_VoteBit = pcv_VoteBit cv,
      cv_Signature = pcv_Signature cv,
      cv_TokenVoteBit = pcv_Token cv @ pcv_VoteBit cv\<rparr>"

definition convertCastVoteToFonero :: "CastVote \<Rightarrow> plugin_CastVote" where
  "convertCastVoteToFonero cv =
     \<lparr>pcv_Token = cv_Token cv,
      pcv_Ticket = cv_Ticket cv,
      pcv_VoteBit = cv_VoteBit cv,
      pcv_Signature = cv_Signature cv\<rparr>"

definition convertVoteOptionResultToFonero :: "VoteOptionResult \<Rightarrow> plugin_VoteOptionResult" where
  "convertVoteOptionResultToFonero r =
     \<lparr>pvor_ID = vo_ID (vor_Option r),
      pvor_Description = vo_Description (vor_Option r),
      pvor_Bits = vo_Bits (vor_Option r),
      pvor_Votes = vor_Votes r\<rparr>"

definition convertVoteOptionResultsToFonero ::
  "VoteOptionResult list \<Rightarrow> plugin_VoteOptionResult list" where
  "convertVoteOptionResultsToFonero r = map convertVoteOptionResultToFonero r"

section \<open>The database\<close>

text \<open>
  The tables behind \<^verbatim>\<open>d.recordsdb\<close>, each a list of rows in storage order. Every
  statement sent to the database can fail in the driver; \<open>faults\<close> is the schedule of
  these failures: its head tells whether the next statement fails, and an exhausted
  schedule means no further failure. Statements of one handle run one after the other.
\<close>

record tables =
  comments :: "Comment list"
  comment_likes :: "LikeComment list"
  cast_votes :: "CastVote list"
  authorize_votes :: "AuthorizeVote list"
  start_votes :: "StartVote list"
  vote_results :: "VoteResults list"
  records :: "Record list"

record gorm_DB =
  tabs :: tables
  faults :: "bool list"

definition stmt_fails :: "gorm_DB \<Rightarrow> bool" where
  "stmt_fails db = (case faults db of [] \<Rightarrow> False | f # _ \<Rightarrow> f)"

definition stmt_done :: "gorm_DB \<Rightarrow> gorm_DB" where
  "stmt_done db = db\<lparr>faults := tl (faults db)\<rparr>"

text \<open>
  \<^verbatim>\<open>Find(&rows)\<close> into a slice, and \<^verbatim>\<open>Raw(q).Rows()\<close>: the selected rows replace the
  destination; no row is not an error.
\<close>

definition Find_slice :: "(tables \<Rightarrow> 'a list) \<Rightarrow> gorm_DB \<Rightarrow> (error + 'a list) \<times> gorm_DB" where
  "Find_slice q db =
     (if stmt_fails db then Inl ErrStorage else Inr (q (tabs db)), stmt_done db)"

text \<open>
  \<^verbatim>\<open>Find(&row)\<close> into a struct: every selected row is scanned into the destination, so
  the last one stays; no row is \<^verbatim>\<open>gorm.ErrRecordNotFound\<close>.
\<close>

definition Find_struct :: "(tables \<Rightarrow> 'a list) \<Rightarrow> gorm_DB \<Rightarrow> (error + 'a) \<times> gorm_DB" where
  "Find_struct q db =
     (if stmt_fails db then Inl ErrStorage
      else (case q (tabs db) of [] \<Rightarrow> Inl ErrRecordNotFound | r # rs \<Rightarrow> Inr (last (r # rs))),
      stmt_done db)"

text \<open>\<^verbatim>\<open>Model(&T{}).Where(...).Count(&n)\<close>.\<close>

definition Count :: "(tables \<Rightarrow> 'a list) \<Rightarrow> gorm_DB \<Rightarrow> (error + nat) \<times> gorm_DB" where
  "Count q db =
     (if stmt_fails db then Inl ErrStorage else Inr (length (q (tabs db))), stmt_done db)"

text \<open>A statement that writes: \<^verbatim>\<open>Create\<close>, \<^verbatim>\<open>Delete\<close>, \<^verbatim>\<open>Updates\<close>.\<close>

definition Write_stmt :: "(tables \<Rightarrow> error + tables) \<Rightarrow> gorm_DB \<Rightarrow> error option \<times> gorm_DB" where
  "Write_stmt w db =
     (if stmt_fails db then (Some ErrStorage, stmt_done db)
      else (case w (tabs db) of
              Inl err \<Rightarrow> (Some err, stmt_done db)
            | Inr t \<Rightarrow> (None, (stmt_done db)\<lparr>tabs := t\<rparr>)))"

text \<open>
  Transactions. \<^verbatim>\<open>tx := db.Begin()\<close> works on its own copy of the tables;
  \<^verbatim>\<open>tx.Commit()\<close> is a statement that publishes the copy or fails and leaves the
  tables as they were; \<^verbatim>\<open>tx.Rollback()\<close> drops the copy.
\<close>

definition Begin :: "gorm_DB \<Rightarrow> gorm_DB" where
  "Begin db = db"

definition Rollback :: "gorm_DB \<Rightarrow> gorm_DB \<Rightarrow> gorm_DB" where
  "Rollback db tx = db\<lparr>faults := faults tx\<rparr>"

definition Commit :: "gorm_DB \<Rightarrow> gorm_DB \<Rightarrow> error option \<times> gorm_DB" where
  "Commit db tx =
     (if stmt_fails tx then (Some ErrStorage, stmt_done (Rollback db tx))
      else (None, stmt_done tx))"

subsection \<open>Inserts\<close>

text \<open>
  \<^verbatim>\<open>Create\<close> appends a row. The tables whose rows carry a key of their own
  (\<open>comments.key\<close>, \<open>authorize_votes.key\<close>, \<open>start_votes.token\<close>,
  \<open>vote_results.token\<close>) reject a second row with the same key; \<open>comment_likes\<close> and
  \<open>cast_votes\<close> rows get a serial key from the database.
\<close>

definition Create_Comment :: "Comment \<Rightarrow> tables \<Rightarrow> error + tables" where
  "Create_Comment c t =
     (if c_Key c \<in> set (map c_Key (comments t)) then Inl ErrUniqueViolation
      else Inr (t\<lparr>comments := comments t @ [c]\<rparr>))"

definition Create_LikeComment :: "LikeComment \<Rightarrow> tables \<Rightarrow> error + tables" where
  "Create_LikeComment lc t = Inr (t\<lparr>comment_likes := comment_likes t @ [lc]\<rparr>)"

definition Create_AuthorizeVote :: "AuthorizeVote \<Rightarrow> tables \<Rightarrow> error + tables" where
  "Create_AuthorizeVote av t =
     (if av_Key av \<in> set (map av_Key (authorize_votes t)) then Inl ErrUniqueViolation
      else Inr (t\<lparr>authorize_votes := authorize_votes t @ [av]\<rparr>))"

definition Create_StartVote :: "StartVote \<Rightarrow> tables \<Rightarrow> error + tables" where
  "Create_StartVote sv t =
     (if sv_Token sv \<in> set (map sv_Token (start_votes t)) then Inl ErrUniqueViolation
      else Inr (t\<lparr>start_votes := start_votes t @ [sv]\<rparr>))"

definition Create_CastVote :: "CastVote \<Rightarrow> tables \<Rightarrow> error + tables" where
  "Create_CastVote cv t = Inr (t\<lparr>cast_votes := cast_votes t @ [cv]\<rparr>)"

definition Create_VoteResults :: "VoteResults \<Rightarrow> tables \<Rightarrow> error + tables" where
  "Create_VoteResults vr t =
     (if vr_Token vr \<in> set (map vr_Token (vote_results t)) then Inl ErrUniqueViolation
      else Inr (t\<lparr>vote_results := vote_results t @ [vr]\<rparr>))"

text \<open>
  A statement on a model value (\<^verbatim>\<open>Model(&c)\<close>, \<^verbatim>\<open>Find(&c)\<close>) addresses the row with
  the value's primary key; gorm adds that condition only when the key is not blank.
\<close>

definition primary_key_cond :: "string \<Rightarrow> string \<Rightarrow> bool" where
  "primary_key_cond key k = (key = [] \<or> k = key)"

section \<open>The payload codec\<close>

text \<open>
  The \<^verbatim>\<open>foneroplugin.Decode...\<close> and \<^verbatim>\<open>foneroplugin.Encode...\<close> functions, which are
  not among the files at hand, are parameters of the model: a decoder returns the value
  or its error, an encoder the payload or its error. The two record-status constants of
  the politeiad API that \<^verbatim>\<open>cmdTokenInventory\<close> passes to its queries are parameters
  as well.
\<close>

record codec =
  DecodeNewComment :: "string \<Rightarrow> error + NewComment"
  DecodeNewCommentReply :: "string \<Rightarrow> error + NewCommentReply"
  DecodeLikeComment :: "string \<Rightarrow> error + plugin_LikeComment"
  DecodeCensorComment :: "string \<Rightarrow> error + CensorComment"
  DecodeGetComment :: "string \<Rightarrow> error + GetComment"
  DecodeGetComments :: "string \<Rightarrow> error + GetComments"
  DecodeCommentLikes :: "string \<Rightarrow> error + CommentLikes"
  DecodeGetProposalCommentsLikes :: "string \<Rightarrow> error + GetProposalCommentsLikes"
  DecodeAuthorizeVote :: "string \<Rightarrow> error + plugin_AuthorizeVote"
  DecodeAuthorizeVoteReply :: "string \<Rightarrow> error + AuthorizeVoteReply"
  DecodeStartVote :: "string \<Rightarrow> error + plugin_StartVote"
  DecodeStartVoteReply :: "string \<Rightarrow> error + StartVoteReply"
  DecodeVoteDetails :: "string \<Rightarrow> error + VoteDetails"
  DecodeBallot :: "string \<Rightarrow> error + Ballot"
  DecodeVoteResults :: "string \<Rightarrow> error + plugin_VoteResults"
  DecodeLoadVoteResults :: "string \<Rightarrow> error + LoadVoteResults"
  DecodeTokenInventory :: "string \<Rightarrow> error + TokenInventory"
  DecodeVoteSummary :: "string \<Rightarrow> error + VoteSummary"
  EncodeGetCommentReply :: "GetCommentReply \<Rightarrow> error + string"
  EncodeGetCommentsReply :: "GetCommentsReply \<Rightarrow> error + string"
  EncodeCommentLikesReply :: "CommentLikesReply \<Rightarrow> error + string"
  EncodeGetProposalCommentsLikesReply :: "GetProposalCommentsLikesReply \<Rightarrow> error + string"
  EncodeVoteDetailsReply :: "VoteDetailsReply \<Rightarrow> error + string"
  EncodeVoteResultsReply :: "VoteResultsReply \<Rightarrow> error + string"
  EncodeInventoryReply :: "InventoryReply \<Rightarrow> error + string"
  EncodeLoadVoteResultsReply :: "unit \<Rightarrow> error + string"
  EncodeTokenInventoryReply :: "TokenInventoryReply \<Rightarrow> error + string"
  EncodeVoteSummaryReply :: "VoteSummaryReply \<Rightarrow> error + string"
  RecordStatusPublic :: int
  RecordStatusArchived :: int

section \<open>The plugin commands\<close>

text \<open>
  A command returns \<^verbatim>\<open>(string, error)\<close>: the reply payload and an error, \<open>None\<close> for
  \<^verbatim>\<open>nil\<close>. The receiver \<open>d\<close> is the database handle \<^verbatim>\<open>d.recordsdb\<close>; the handle after
  the command is returned with the result.
\<close>

type_synonym result = "(string \<times> error option) \<times> gorm_DB"

definition voteOptionIDApproved :: string where
  "voteOptionIDApproved = ''yes''"

definition zero_AuthorizeVote :: AuthorizeVote where
  "zero_AuthorizeVote =
     \<lparr>av_Key = [], av_Token = [], av_Version = 0, av_Action = [], av_Signature = [],
      av_PublicKey = [], av_Receipt = [], av_Timestamp = 0\<rparr>"

definition zero_StartVote :: StartVote where
  "zero_StartVote =
     \<lparr>sv_Token = [], sv_Mask = 0, sv_Duration = 0, sv_QuorumPercentage = 0,
      sv_PassPercentage = 0, sv_Options = [], sv_PublicKey = [], sv_Signature = [],
      sv_StartBlockHeight = [], sv_StartBlockHash = [], sv_EndHeight = 0,
      sv_EligibleTickets = [], sv_EligibleTicketCount = 0\<rparr>"

text \<open>\<^verbatim>\<open>ORDER BY key DESC\<close>; SQL leaves the order among equal keys open.\<close>

definition order_desc :: "('a \<Rightarrow> 'k::linorder) \<Rightarrow> 'a list \<Rightarrow> 'a list" where
  "order_desc key rows = rev (sort_key key rows)"

subsection \<open>Comments\<close>

definition newComment :: "gorm_DB \<Rightarrow> Comment \<Rightarrow> error option \<times> gorm_DB" where
  "newComment db c = Write_stmt (Create_Comment c) db"

definition cmdNewComment :: "codec \<Rightarrow> gorm_DB \<Rightarrow> string \<Rightarrow> string \<Rightarrow> result" where
  "cmdNewComment cd d cmdPayload replyPayload =
     (case DecodeNewComment cd cmdPayload of
        Inl err \<Rightarrow> (([], Some err), d)
      | Inr nc \<Rightarrow>
          (case DecodeNewCommentReply cd replyPayload of
             Inl err \<Rightarrow> (([], Some err), d)
           | Inr ncr \<Rightarrow>
               (let c = convertNewCommentFromFonero nc ncr;
                    (err, d') = newComment d c
                in ((replyPayload, err), d'))))"

definition newLikeComment :: "gorm_DB \<Rightarrow> LikeComment \<Rightarrow> error option \<times> gorm_DB" where
  "newLikeComment db lc = Write_stmt (Create_LikeComment lc) db"

definition cmdLikeComment :: "codec \<Rightarrow> gorm_DB \<Rightarrow> string \<Rightarrow> string \<Rightarrow> result" where
  "cmdLikeComment cd d cmdPayload replyPayload =
     (case DecodeLikeComment cd cmdPayload of
        Inl err \<Rightarrow> (([], Some err), d)
      | Inr dlc \<Rightarrow>
          (let lc = convertLikeCommentFromFonero dlc;
               (err, d') = newLikeComment d lc
           in ((replyPayload, err), d')))"

definition cmdCensorComment :: "codec \<Rightarrow> gorm_DB \<Rightarrow> string \<Rightarrow> string \<Rightarrow> result" where
  "cmdCensorComment cd d cmdPayload replyPayload =
     (case DecodeCensorComment cd cmdPayload of
        Inl err \<Rightarrow> (([], Some err), d)
      | Inr cc \<Rightarrow>
          (let key = cc_Token cc @ cc_CommentID cc;
               (err, d') =
                 Write_stmt
                   (\<lambda>t. Inr (t\<lparr>comments :=
                              map (\<lambda>c. if primary_key_cond key (c_Key c)
                                        then c\<lparr>c_Comment := [], c_Censored := True\<rparr> else c)
                                (comments t)\<rparr>)) d
           in ((replyPayload, err), d')))"

definition cmdGetComment :: "codec \<Rightarrow> gorm_DB \<Rightarrow> string \<Rightarrow> result" where
  "cmdGetComment cd d payload =
     (case DecodeGetComment cd payload of
        Inl err \<Rightarrow> (([], Some err), d)
      | Inr gc \<Rightarrow>
          (let key = gc_Token gc @ gc_CommentID gc;
               (found, d') =
                 Find_struct (\<lambda>t. filter (\<lambda>c. primary_key_cond key (c_Key c)) (comments t)) d
           in case found of
                Inl err \<Rightarrow>
                  (([], Some (if err = ErrRecordNotFound then cache_ErrRecordNotFound else err)), d')
              | Inr c \<Rightarrow>
                  (case EncodeGetCommentReply cd \<lparr>gcr_Comment = convertCommentToFonero c\<rparr> of
                     Inl err \<Rightarrow> (([], Some err), d')
                   | Inr gcrb \<Rightarrow> ((gcrb, None), d'))))"

definition cmdGetComments :: "codec \<Rightarrow> gorm_DB \<Rightarrow> string \<Rightarrow> result" where
  "cmdGetComments cd d payload =
     (case DecodeGetComments cd payload of
        Inl err \<Rightarrow> (([], Some err), d)
      | Inr gc \<Rightarrow>
          (let (found, d') =
                 Find_slice (\<lambda>t. filter (\<lambda>c. c_Token c = gcs_Token gc) (comments t)) d
           in case found of
                Inl err \<Rightarrow> (([], Some err), d')
              | Inr found_comments \<Rightarrow>
                  (let dpc = map convertCommentToFonero found_comments
                   in case EncodeGetCommentsReply cd \<lparr>gcsr_Comments = dpc\<rparr> of
                        Inl err \<Rightarrow> (([], Some err), d')
                      | Inr gcrb \<Rightarrow> ((gcrb, None), d'))))"

definition cmdCommentLikes :: "codec \<Rightarrow> gorm_DB \<Rightarrow> string \<Rightarrow> result" where
  "cmdCommentLikes cd d payload =
     (case DecodeCommentLikes cd payload of
        Inl err \<Rightarrow> (([], Some err), d)
      | Inr cl \<Rightarrow>
          (let (found, d') =
                 Find_slice
                   (\<lambda>t. filter (\<lambda>l. lc_Token l = cl_Token cl \<and> lc_CommentID l = cl_CommentID cl)
                          (comment_likes t)) d
           in case found of
                Inl err \<Rightarrow> (([], Some err), d')
              | Inr likes \<Rightarrow>
                  (let lc = map convertLikeCommentToFonero likes
                   in case EncodeCommentLikesReply cd \<lparr>clr_CommentLikes = lc\<rparr> of
                        Inl err \<Rightarrow> (([], Some err), d')
                      | Inr clrb \<Rightarrow> ((clrb, None), d'))))"

definition cmdProposalCommentsLikes :: "codec \<Rightarrow> gorm_DB \<Rightarrow> string \<Rightarrow> result" where
  "cmdProposalCommentsLikes cd d payload =
     (case DecodeGetProposalCommentsLikes cd payload of
        Inl err \<Rightarrow> (([], Some err), d)
      | Inr cl \<Rightarrow>
          (let (found, d') =
                 Find_slice (\<lambda>t. filter (\<lambda>l. lc_Token l = gpcl_Token cl) (comment_likes t)) d
           in case found of
                Inl err \<Rightarrow> (([], Some err), d')
              | Inr likes \<Rightarrow>
                  (let lc = map convertLikeCommentToFonero likes
                   in case EncodeGetProposalCommentsLikesReply cd \<lparr>gpclr_CommentsLikes = lc\<rparr> of
                        Inl err \<Rightarrow> (([], Some err), d')
                      | Inr clrb \<Rightarrow> ((clrb, None), d'))))"

definition cmdInventory :: "codec \<Rightarrow> gorm_DB \<Rightarrow> result" where
  "cmdInventory cd d =
     (let (found, d') = Find_slice comments d
      in case found of
           Inl err \<Rightarrow> (([], Some err), d')
         | Inr c \<Rightarrow>
             (let dc = map convertCommentToFonero c
              in case EncodeInventoryReply cd \<lparr>ir_Comments = dc\<rparr> of
                   Inl err \<Rightarrow> (([], Some err), d')
                 | Inr irb \<Rightarrow> ((irb, None), d')))"

subsection \<open>Vote authorisation and start\<close>

definition newAuthorizeVote :: "gorm_DB \<Rightarrow> AuthorizeVote \<Rightarrow> error option \<times> gorm_DB" where
  "newAuthorizeVote tx av =
     (case Write_stmt
             (\<lambda>t. Inr (t\<lparr>authorize_votes :=
                        filter (\<lambda>a. av_Key a \<noteq> av_Key av) (authorize_votes t)\<rparr>)) tx of
        (Some err, tx1) \<Rightarrow> (Some (Errorf ''delete authorize vote'' err), tx1)
      | (None, tx1) \<Rightarrow>
          (case Write_stmt (Create_AuthorizeVote av) tx1 of
             (Some err, tx2) \<Rightarrow> (Some (Errorf ''create authorize vote'' err), tx2)
           | (None, tx2) \<Rightarrow> (None, tx2)))"

definition cmdAuthorizeVote :: "codec \<Rightarrow> gorm_DB \<Rightarrow> string \<Rightarrow> string \<Rightarrow> result" where
  "cmdAuthorizeVote cd d cmdPayload replyPayload =
     (case DecodeAuthorizeVote cd cmdPayload of
        Inl err \<Rightarrow> (([], Some err), d)
      | Inr av \<Rightarrow>
          (case DecodeAuthorizeVoteReply cd replyPayload of
             Inl err \<Rightarrow> (([], Some err), d)
           | Inr avr \<Rightarrow>
               (case ParseUint (avr_RecordVersion avr) of
                  Inl err \<Rightarrow>
                    (([], Some (Errorf (''parse version '' @ avr_RecordVersion avr @ '' failed'') err)), d)
                | Inr v \<Rightarrow>
                    (let a = convertAuthorizeVoteFromFonero av avr v;
                         tx = Begin d
                     in case newAuthorizeVote tx a of
                          (Some err, tx') \<Rightarrow>
                            (([], Some (Errorf ''newAuthorizeVote'' err)), Rollback d tx')
                        | (None, tx') \<Rightarrow>
                            (case Commit d tx' of
                               (Some err, d') \<Rightarrow> (([], Some (Errorf ''commit transaction'' err)), d')
                             | (None, d') \<Rightarrow> ((replyPayload, None), d'))))))"

definition newStartVote :: "gorm_DB \<Rightarrow> StartVote \<Rightarrow> error option \<times> gorm_DB" where
  "newStartVote db sv = Write_stmt (Create_StartVote sv) db"

definition cmdStartVote :: "codec \<Rightarrow> gorm_DB \<Rightarrow> string \<Rightarrow> string \<Rightarrow> result" where
  "cmdStartVote cd d cmdPayload replyPayload =
     (case DecodeStartVote cd cmdPayload of
        Inl err \<Rightarrow> (([], Some err), d)
      | Inr sv \<Rightarrow>
          (case DecodeStartVoteReply cd replyPayload of
             Inl err \<Rightarrow> (([], Some err), d)
           | Inr svr \<Rightarrow>
               (case ParseUint (svr_EndHeight svr) of
                  Inl err \<Rightarrow> (([], Some (Errorf (''parse end height '' @ svr_EndHeight svr) err)), d)
                | Inr endHeight \<Rightarrow>
                    (let s = convertStartVoteFromFonero sv svr endHeight
                     in case newStartVote d s of
                          (Some err, d') \<Rightarrow> (([], Some err), d')
                        | (None, d') \<Rightarrow> ((replyPayload, None), d')))))"

text \<open>
  The lookup of the most recent version of a record:
  \<^verbatim>\<open>Where("records.token = ?").Order("records.version desc").Limit(1).Find(&r)\<close>.
\<close>

definition latest_record :: "string \<Rightarrow> tables \<Rightarrow> Record list" where
  "latest_record token t = take 1 (order_desc r_Version (filter (\<lambda>r. r_Token r = token) (records t)))"

definition cmdVoteDetails :: "codec \<Rightarrow> gorm_DB \<Rightarrow> string \<Rightarrow> result" where
  "cmdVoteDetails cd d payload =
     (case DecodeVoteDetails cd payload of
        Inl err \<Rightarrow> (([], None), d)
      | Inr vd \<Rightarrow>
          (let (rq, d1) = Find_struct (latest_record (vd_Token vd)) d
           in case rq of
                Inl err \<Rightarrow>
                  (([], Some (if err = ErrRecordNotFound then cache_ErrRecordNotFound else err)), d1)
              | Inr r \<Rightarrow>
                  (let key = vd_Token vd @ FormatUint (r_Version r) 10;
                       (avq, d2) = Find_struct (\<lambda>t. filter (\<lambda>a. av_Key a = key) (authorize_votes t)) d1
                   in if (case avq of Inl err \<Rightarrow> err \<noteq> ErrRecordNotFound | Inr _ \<Rightarrow> False)
                      then (([], Some (Errorf ''authorize vote lookup failed'' (projl avq))), d2)
                      else
                        (let av = (case avq of Inl _ \<Rightarrow> zero_AuthorizeVote | Inr a \<Rightarrow> a);
                             (svq, d3) =
                               Find_struct (\<lambda>t. filter (\<lambda>s. sv_Token s = vd_Token vd) (start_votes t)) d2
                         in if (case svq of Inl err \<Rightarrow> err \<noteq> ErrRecordNotFound | Inr _ \<Rightarrow> False)
                            then (([], Some (Errorf ''start vote lookup failed'' (projl svq))), d3)
                            else
                              (let sv = (case svq of Inl _ \<Rightarrow> zero_StartVote | Inr s \<Rightarrow> s);
                                   dav = convertAuthorizeVoteToFonero av;
                                   (dsv, dsvr) = convertStartVoteToFonero sv;
                                   vdr = \<lparr>vdr_AuthorizeVote = dav, vdr_StartVote = dsv,
                                          vdr_StartVoteReply = dsvr\<rparr>
                               in case EncodeVoteDetailsReply cd vdr of
                                    Inl err \<Rightarrow> (([], Some err), d3)
                                  | Inr vdrb \<Rightarrow> ((vdrb, None), d3))))))"

subsection \<open>Ballots\<close>

definition newCastVote :: "gorm_DB \<Rightarrow> CastVote \<Rightarrow> error option \<times> gorm_DB" where
  "newCastVote db cv = Write_stmt (Create_CastVote cv) db"

text \<open>The loop of \<^verbatim>\<open>cmdNewBallot\<close> over \<^verbatim>\<open>b.Votes\<close>; it stops at the first failing insert.\<close>

fun insert_votes :: "gorm_DB \<Rightarrow> plugin_CastVote list \<Rightarrow> error option \<times> gorm_DB" where
  "insert_votes tx [] = (None, tx)"
| "insert_votes tx (v # vs) =
     (let cv = convertCastVoteFromFonero v
      in case newCastVote tx cv of
           (Some err, tx') \<Rightarrow> (Some err, tx')
         | (None, tx') \<Rightarrow> insert_votes tx' vs)"

definition cmdNewBallot :: "codec \<Rightarrow> gorm_DB \<Rightarrow> string \<Rightarrow> string \<Rightarrow> result" where
  "cmdNewBallot cd d cmdPayload replyPayload =
     (case DecodeBallot cd cmdPayload of
        Inl err \<Rightarrow> (([], Some err), d)
      | Inr b \<Rightarrow>
          (let tx = Begin d
           in case insert_votes tx (b_Votes b) of
                (Some err, tx') \<Rightarrow> (([], Some err), Rollback d tx')
              | (None, tx') \<Rightarrow>
                  (case Commit d tx' of
                     (Some err, d') \<Rightarrow> (([], Some (Errorf ''commit transaction failed'' err)), d')
                   | (None, d') \<Rightarrow> ((replyPayload, None), d'))))"

definition cmdProposalVotes :: "codec \<Rightarrow> gorm_DB \<Rightarrow> string \<Rightarrow> result" where
  "cmdProposalVotes cd d payload =
     (case DecodeVoteResults cd payload of
        Inl err \<Rightarrow> (([], Some err), d)
      | Inr vr \<Rightarrow>
          (let (svq, d1) =
                 Find_struct (\<lambda>t. filter (\<lambda>s. sv_Token s = pvr_Token vr) (start_votes t)) d
           in if (case svq of Inl err \<Rightarrow> err \<noteq> ErrRecordNotFound | Inr _ \<Rightarrow> False)
              then (([], Some (Errorf ''start vote lookup failed'' (projl svq))), d1)
              else
                (let sv = (case svq of Inl _ \<Rightarrow> zero_StartVote | Inr s \<Rightarrow> s);
                     (cvq, d2) =
                       Find_slice (\<lambda>t. filter (\<lambda>c. cv_Token c = pvr_Token vr) (cast_votes t)) d1
                 in if (case cvq of Inl err \<Rightarrow> err \<noteq> ErrRecordNotFound | Inr _ \<Rightarrow> False)
                    then (([], Some (Errorf ''cast votes lookup failed'' (projl cvq))), d2)
                    else
                      (let cv = (case cvq of Inl _ \<Rightarrow> [] | Inr rows \<Rightarrow> rows);
                           (dsv, dsvr) = convertStartVoteToFonero sv;
                           dcv = map convertCastVoteToFonero cv;
                           vrr = \<lparr>vrr_StartVote = dsv, vrr_CastVotes = dcv\<rparr>
                       in case EncodeVoteResultsReply cd vrr of
                            Inl err \<Rightarrow> (([], Some err), d2)
                          | Inr vrrb \<Rightarrow> ((vrrb, None), d2)))))"

subsection \<open>Vote results\<close>

definition newVoteResults :: "gorm_DB \<Rightarrow> string \<Rightarrow> error option \<times> gorm_DB" where
  "newVoteResults d token =
     (let (svq, d1) = Find_struct (\<lambda>t. filter (\<lambda>s. sv_Token s = token) (start_votes t)) d
      in case svq of
           Inl err \<Rightarrow> (Some (Errorf ''lookup start vote'' err), d1)
         | Inr sv \<Rightarrow>
             (let (cvq, d2) = Find_slice (\<lambda>t. filter (\<lambda>c. cv_Token c = token) (cast_votes t)) d1
              in if (case cvq of Inl err \<Rightarrow> err \<noteq> ErrRecordNotFound | Inr _ \<Rightarrow> False)
                 then (Some (Errorf ''lookup cast votes'' (projl cvq)), d2)
                 else
                   (let cv = (case cvq of Inl _ \<Rightarrow> [] | Inr rows \<Rightarrow> rows);
                        tally = foldl (\<lambda>m v. m(cv_VoteBit v := m (cv_VoteBit v) + 1)) (\<lambda>_. 0::nat) cv;
                        results =
                          map (\<lambda>v. let voteBit = FormatUint (vo_Bits v) 16
                                   in \<lparr>vor_Key = token @ voteBit,
                                       vor_Votes = tally voteBit,
                                       vor_Option = v\<rparr>) (sv_Options sv);
                        total = foldl (\<lambda>n v. n + vor_Votes v) 0 results;
                        eligible = length (Split (sv_EligibleTickets sv) (CHR '',''));
                        quorum =
                          uint64_of_float64
                            (f64_mul (f64_div (float64 (sv_QuorumPercentage sv)) (float64 100))
                               (float64 eligible));
                        pass =
                          uint64_of_float64
                            (f64_mul (f64_div (float64 (sv_PassPercentage sv)) (float64 100))
                               (float64 total));
                        approvedVotes =
                          foldl (\<lambda>n v. if vo_ID (vor_Option v) = voteOptionIDApproved
                                         then vor_Votes v else n) 0 results;
                        approved =
                          (if total < quorum then False
                           else if approvedVotes < pass then False
                           else True)
                    in case Write_stmt
                              (Create_VoteResults
                                 \<lparr>vr_Token = token, vr_Approved = approved, vr_Results = results\<rparr>) d2 of
                         (Some err, d3) \<Rightarrow> (Some (Errorf ''new vote results'' err), d3)
                       | (None, d3) \<Rightarrow> (None, d3))))"

text \<open>
  The query shared by \<^verbatim>\<open>cmdLoadVoteResults\<close> and \<^verbatim>\<open>cmdTokenInventory\<close>: the tokens of
  the \<open>start_votes\<close> rows with \<open>end_height <= ?\<close> that no \<open>vote_results\<close> row joins.
\<close>

definition finished_without_results :: "nat \<Rightarrow> tables \<Rightarrow> string list" where
  "finished_without_results bestBlock t =
     map sv_Token
       (filter (\<lambda>s. sv_EndHeight s \<le> bestBlock \<and> sv_Token s \<notin> set (map vr_Token (vote_results t)))
          (start_votes t))"

text \<open>The loop of \<^verbatim>\<open>cmdLoadVoteResults\<close> over the tokens; it returns the failing token with its error.\<close>

fun create_vote_results :: "gorm_DB \<Rightarrow> string list \<Rightarrow> (string \<times> error) option \<times> gorm_DB" where
  "create_vote_results d [] = (None, d)"
| "create_vote_results d (v # vs) =
     (case newVoteResults d v of
        (Some err, d') \<Rightarrow> (Some (v, err), d')
      | (None, d') \<Rightarrow> create_vote_results d' vs)"

definition cmdLoadVoteResults :: "codec \<Rightarrow> gorm_DB \<Rightarrow> string \<Rightarrow> result" where
  "cmdLoadVoteResults cd d payload =
     (case DecodeLoadVoteResults cd payload of
        Inl err \<Rightarrow> (([], Some err), d)
      | Inr lvs \<Rightarrow>
          (let (rows, d1) = Find_slice (finished_without_results (lvr_BestBlock lvs)) d
           in case rows of
                Inl err \<Rightarrow> (([], Some (Errorf ''no vote results'' err)), d1)
              | Inr tokens \<Rightarrow>
                  (case create_vote_results d1 tokens of
                     (Some (v, err), d2) \<Rightarrow> (([], Some (Errorf (''newVoteResults '' @ v) err)), d2)
                   | (None, d2) \<Rightarrow>
                       (case EncodeLoadVoteResultsReply cd () of
                          Inl err \<Rightarrow> (([], Some err), d2)
                        | Inr reply \<Rightarrow> ((reply, None), d2)))))"

text \<open>The five listings of \<^verbatim>\<open>cmdTokenInventory\<close>, one definition per SQL query.\<close>

definition pre_tokens :: "int \<Rightarrow> tables \<Rightarrow> string list" where
  "pre_tokens public t =
     map r_Token
       (order_desc r_Timestamp
          (filter (\<lambda>a. \<not> (\<exists>b \<in> set (records t). r_Token a = r_Token b \<and> r_Version a < r_Version b)
                       \<and> r_Token a \<notin> set (map sv_Token (start_votes t))
                       \<and> r_Status a = public)
             (records t)))"

definition active_tokens :: "nat \<Rightarrow> tables \<Rightarrow> string list" where
  "active_tokens bestBlock t =
     map sv_Token (order_desc sv_EndHeight (filter (\<lambda>s. bestBlock < sv_EndHeight s) (start_votes t)))"

definition voted_tokens :: "bool \<Rightarrow> tables \<Rightarrow> string list" where
  "voted_tokens approved t =
     map (\<lambda>(vr, s). vr_Token vr)
       (order_desc (\<lambda>(vr, s). sv_EndHeight s)
          (concat (map (\<lambda>vr. map (\<lambda>s. (vr, s))
                               (filter (\<lambda>s. vr_Token vr = sv_Token s) (start_votes t)))
                     (filter (\<lambda>vr. vr_Approved vr = approved) (vote_results t)))))"

definition abandoned_tokens :: "int \<Rightarrow> tables \<Rightarrow> string list" where
  "abandoned_tokens archived t =
     map r_Token (order_desc r_Timestamp (filter (\<lambda>r. r_Status r = archived) (records t)))"

definition cmdTokenInventory :: "codec \<Rightarrow> gorm_DB \<Rightarrow> string \<Rightarrow> result" where
  "cmdTokenInventory cd d payload =
     (case DecodeTokenInventory cd payload of
        Inl err \<Rightarrow> (([], Some err), d)
      | Inr ti \<Rightarrow>
     (case Find_slice (finished_without_results (ti_BestBlock ti)) d of
        (Inl err, d1) \<Rightarrow> (([], Some (Errorf ''no vote results'' err)), d1)
      | (Inr missing, d1) \<Rightarrow>
     if length missing > 0 then (([], Some cache_ErrRecordNotFound), d1) else
     (case Find_slice (pre_tokens (RecordStatusPublic cd)) d1 of
        (Inl err, d2) \<Rightarrow> (([], Some (Errorf ''pre'' err)), d2)
      | (Inr pre, d2) \<Rightarrow>
     (case Find_slice (active_tokens (ti_BestBlock ti)) d2 of
        (Inl err, d3) \<Rightarrow> (([], Some (Errorf ''active'' err)), d3)
      | (Inr active, d3) \<Rightarrow>
     (case Find_slice (voted_tokens True) d3 of
        (Inl err, d4) \<Rightarrow> (([], Some (Errorf ''approved'' err)), d4)
      | (Inr approved, d4) \<Rightarrow>
     (case Find_slice (voted_tokens False) d4 of
        (Inl err, d5) \<Rightarrow> (([], Some (Errorf ''rejected'' err)), d5)
      | (Inr rejected, d5) \<Rightarrow>
     (case Find_slice (abandoned_tokens (RecordStatusArchived cd)) d5 of
        (Inl err, d6) \<Rightarrow> (([], Some (Errorf ''abandoned'' err)), d6)
      | (Inr abandoned, d6) \<Rightarrow>
     (case EncodeTokenInventoryReply cd
             \<lparr>tir_Pre = pre, tir_Active = active, tir_Approved = approved,
              tir_Rejected = rejected, tir_Abandoned = abandoned\<rparr> of
        Inl err \<Rightarrow> (([], Some err), d6)
      | Inr reply \<Rightarrow> ((reply, None), d6)))))))))"

subsection \<open>Vote summary\<close>

text \<open>
  Modelled from the spec: the constant \<^verbatim>\<open>foneroplugin.AuthVoteActionAuthorize\<close> is not
  among the files at hand; the action of an authorisation is "authorize" (the other one
  revokes).
\<close>

definition AuthVoteActionAuthorize :: string where
  "AuthVoteActionAuthorize = ''authorize''"

text \<open>The statements after the label \<^verbatim>\<open>sendReply\<close> of \<^verbatim>\<open>cmdVoteSummary\<close>.\<close>

definition sendReply ::
  "codec \<Rightarrow> AuthorizeVote \<Rightarrow> StartVote \<Rightarrow> plugin_VoteOptionResult list \<Rightarrow> gorm_DB \<Rightarrow> result" where
  "sendReply cd av sv results d =
     (let endHeight = (if sv_EndHeight sv \<noteq> 0 then FormatUint (sv_EndHeight sv) 10 else []);
          vsr = \<lparr>vsr_Authorized = (av_Action av = AuthVoteActionAuthorize),
                 vsr_EndHeight = endHeight,
                 vsr_EligibleTicketCount = sv_EligibleTicketCount sv,
                 vsr_QuorumPercentage = sv_QuorumPercentage sv,
                 vsr_PassPercentage = sv_PassPercentage sv,
                 vsr_Results = results\<rparr>
      in case EncodeVoteSummaryReply cd vsr of
           Inl err \<Rightarrow> (([], Some err), d)
         | Inr reply \<Rightarrow> ((reply, None), d))"

text \<open>The loop of \<^verbatim>\<open>cmdVoteSummary\<close> that counts the cast votes of each option.\<close>

fun count_cast_votes ::
  "gorm_DB \<Rightarrow> VoteOption list \<Rightarrow> (error + plugin_VoteOptionResult list) \<times> gorm_DB" where
  "count_cast_votes d [] = (Inr [], d)"
| "count_cast_votes d (v # vs) =
     (let tokenVoteBit = vo_Token v @ FormatUint (vo_Bits v) 16
      in case Count (\<lambda>t. filter (\<lambda>c. cv_TokenVoteBit c = tokenVoteBit) (cast_votes t)) d of
           (Inl err, d') \<Rightarrow> (Inl err, d')
         | (Inr votes, d') \<Rightarrow>
             (case count_cast_votes d' vs of
                (Inl err, d'') \<Rightarrow> (Inl err, d'')
              | (Inr rest, d'') \<Rightarrow>
                  (Inr (\<lparr>pvor_ID = vo_ID v, pvor_Description = vo_Description v,
                         pvor_Bits = vo_Bits v, pvor_Votes = votes\<rparr> # rest), d'')))"

definition cmdVoteSummary :: "codec \<Rightarrow> gorm_DB \<Rightarrow> string \<Rightarrow> result" where
  "cmdVoteSummary cd d payload =
     (case DecodeVoteSummary cd payload of
        Inl err \<Rightarrow> (([], Some err), d)
      | Inr vs \<Rightarrow>
     (case Find_struct (latest_record (vs_Token vs)) d of
        (Inl err, d1) \<Rightarrow>
          (([], Some (if err = ErrRecordNotFound then cache_ErrRecordNotFound else err)), d1)
      | (Inr r, d1) \<Rightarrow>
     (let key = vs_Token vs @ FormatUint (r_Version r) 10
      in case Find_struct (\<lambda>t. filter (\<lambda>a. av_Key a = key) (authorize_votes t)) d1 of
        (Inl err, d2) \<Rightarrow>
          if err = ErrRecordNotFound then sendReply cd zero_AuthorizeVote zero_StartVote [] d2
          else (([], Some (Errorf ''lookup authorize vote'' err)), d2)
      | (Inr av, d2) \<Rightarrow>
     (case Find_struct (\<lambda>t. filter (\<lambda>s. sv_Token s = vs_Token vs) (start_votes t)) d2 of
        (Inl err, d3) \<Rightarrow>
          if err = ErrRecordNotFound then sendReply cd av zero_StartVote [] d3
          else (([], Some (Errorf ''lookup start vote'' err)), d3)
      | (Inr sv, d3) \<Rightarrow>
     (case Find_struct (\<lambda>t. filter (\<lambda>v. vr_Token v = vs_Token vs) (vote_results t)) d3 of
        (Inr vr, d4) \<Rightarrow> sendReply cd av sv (convertVoteOptionResultsToFonero (vr_Results vr)) d4
      | (Inl err, d4) \<Rightarrow>
          if err \<noteq> ErrRecordNotFound then (([], Some (Errorf ''lookup vote results'' err)), d4)
          else
            (case count_cast_votes d4 (sv_Options sv) of
               (Inl err, d5) \<Rightarrow> (([], Some (Errorf ''count cast votes'' err)), d5)
             | (Inr results, d5) \<Rightarrow> sendReply cd av sv results d5))))))"

subsection \<open>The dispatcher\<close>

text \<open>
  Modelled from the spec: the command names \<^verbatim>\<open>foneroplugin.Cmd...\<close> are not among the
  files at hand; they are the stable strings of the inbound command set.
\<close>

definition CmdAuthorizeVote :: string where
  "CmdAuthorizeVote = ''authorizevote''"

definition CmdStartVote :: string where
  "CmdStartVote = ''startvote''"

definition CmdVoteDetails :: string where
  "CmdVoteDetails = ''votedetails''"

definition CmdBallot :: string where
  "CmdBallot = ''ballot''"

definition CmdBestBlock :: string where
  "CmdBestBlock = ''bestblock''"

definition CmdNewComment :: string where
  "CmdNewComment = ''newcomment''"

definition CmdLikeComment :: string where
  "CmdLikeComment = ''likecomment''"

definition CmdCensorComment :: string where
  "CmdCensorComment = ''censorcomment''"

definition CmdGetComment :: string where
  "CmdGetComment = ''getcomment''"

definition CmdGetComments :: string where
  "CmdGetComments = ''getcomments''"

definition CmdProposalVotes :: string where
  "CmdProposalVotes = ''proposalvotes''"

definition CmdCommentLikes :: string where
  "CmdCommentLikes = ''commentlikes''"

definition CmdProposalCommentsLikes :: string where
  "CmdProposalCommentsLikes = ''proposalcommentslikes''"

definition CmdInventory :: string where
  "CmdInventory = ''inventory''"

definition CmdLoadVoteResults :: string where
  "CmdLoadVoteResults = ''loadvoteresults''"

definition CmdTokenInventory :: string where
  "CmdTokenInventory = ''tokeninventory''"

definition CmdVoteSummary :: string where
  "CmdVoteSummary = ''votesummary''"

definition Exec :: "codec \<Rightarrow> gorm_DB \<Rightarrow> string \<Rightarrow> string \<Rightarrow> string \<Rightarrow> result" where
  "Exec cd d cmd cmdPayload replyPayload =
     (if cmd = CmdAuthorizeVote then cmdAuthorizeVote cd d cmdPayload replyPayload
      else if cmd = CmdStartVote then cmdStartVote cd d cmdPayload replyPayload
      else if cmd = CmdVoteDetails then cmdVoteDetails cd d cmdPayload
      else if cmd = CmdBallot then cmdNewBallot cd d cmdPayload replyPayload
      else if cmd = CmdBestBlock then (([], None), d)
      else if cmd = CmdNewComment then cmdNewComment cd d cmdPayload replyPayload
      else if cmd = CmdLikeComment then cmdLikeComment cd d cmdPayload replyPayload
      else if cmd = CmdCensorComment then cmdCensorComment cd d cmdPayload replyPayload
      else if cmd = CmdGetComment then cmdGetComment cd d cmdPayload
      else if cmd = CmdGetComments then cmdGetComments cd d cmdPayload
      else if cmd = CmdProposalVotes then cmdProposalVotes cd d cmdPayload
      else if cmd = CmdCommentLikes then cmdCommentLikes cd d cmdPayload
      else if cmd = CmdProposalCommentsLikes then cmdProposalCommentsLikes cd d cmdPayload
      else if cmd = CmdInventory then cmdInventory cd d
      else if cmd = CmdLoadVoteResults then cmdLoadVoteResults cd d cmdPayload
      else if cmd = CmdTokenInventory then cmdTokenInventory cd d cmdPayload
      else if cmd = CmdVoteSummary then cmdVoteSummary cd d cmdPayload
      else (([], Some cache_ErrInvalidPluginCmd), d))"

section \<open>Values for the examples\<close>

text \<open>
  The theorems below hold for every codec and every database. Their instances are
  stated on the empty tables and on a codec that rejects every payload and encodes
  nothing, each updated where an instance needs it.
\<close>

definition empty_tables :: tables where
  "empty_tables =
     \<lparr>comments = [], comment_likes = [], cast_votes = [], authorize_votes = [],
      start_votes = [], vote_results = [], records = []\<rparr>"

definition fail_codec :: codec where
  "fail_codec =
     \<lparr>DecodeNewComment = (\<lambda>p. Inl (ErrDecode p)),
      DecodeNewCommentReply = (\<lambda>p. Inl (ErrDecode p)),
      DecodeLikeComment = (\<lambda>p. Inl (ErrDecode p)),
      DecodeCensorComment = (\<lambda>p. Inl (ErrDecode p)),
      DecodeGetComment = (\<lambda>p. Inl (ErrDecode p)),
      DecodeGetComments = (\<lambda>p. Inl (ErrDecode p)),
      DecodeCommentLikes = (\<lambda>p. Inl (ErrDecode p)),
      DecodeGetProposalCommentsLikes = (\<lambda>p. Inl (ErrDecode p)),
      DecodeAuthorizeVote = (\<lambda>p. Inl (ErrDecode p)),
      DecodeAuthorizeVoteReply = (\<lambda>p. Inl (ErrDecode p)),
      DecodeStartVote = (\<lambda>p. Inl (ErrDecode p)),
      DecodeStartVoteReply = (\<lambda>p. Inl (ErrDecode p)),
      DecodeVoteDetails = (\<lambda>p. Inl (ErrDecode p)),
      DecodeBallot = (\<lambda>p. Inl (ErrDecode p)),
      DecodeVoteResults = (\<lambda>p. Inl (ErrDecode p)),
      DecodeLoadVoteResults = (\<lambda>p. Inl (ErrDecode p)),
      DecodeTokenInventory = (\<lambda>p. Inl (ErrDecode p)),
      DecodeVoteSummary = (\<lambda>p. Inl (ErrDecode p)),
      EncodeGetCommentReply = (\<lambda>r. Inl (ErrDecode [])),
      EncodeGetCommentsReply = (\<lambda>r. Inl (ErrDecode [])),
      EncodeCommentLikesReply = (\<lambda>r. Inl (ErrDecode [])),
      EncodeGetProposalCommentsLikesReply = (\<lambda>r. Inl (ErrDecode [])),
      EncodeVoteDetailsReply = (\<lambda>r. Inl (ErrDecode [])),
      EncodeVoteResultsReply = (\<lambda>r. Inl (ErrDecode [])),
      EncodeInventoryReply = (\<lambda>r. Inl (ErrDecode [])),
      EncodeLoadVoteResultsReply = (\<lambda>r. Inl (ErrDecode [])),
      EncodeTokenInventoryReply = (\<lambda>r. Inl (ErrDecode [])),
      EncodeVoteSummaryReply = (\<lambda>r. Inl (ErrDecode [])),
      RecordStatusPublic = 4,
      RecordStatusArchived = 6\<rparr>"

section \<open>Properties of the library functions\<close>

lemma Split_not_Nil: "Split s sep \<noteq> []"
  by (induction s) (auto simp: Let_def)

lemma Split_no_sep: "sep \<notin> set s \<Longrightarrow> Split s sep = [s]"
  by (induction s) (auto simp: Let_def)

lemma Split_append_sep:
  "sep \<notin> set x \<Longrightarrow> Split (x @ sep # rest) sep = x # Split rest sep"
  by (induction x) (auto simp: Let_def)

lemma Split_Join:
  "xs \<noteq> [] \<Longrightarrow> \<forall>x \<in> set xs. sep \<notin> set x \<Longrightarrow> Split (Join xs [sep]) sep = xs"
proof (induction xs "[sep]" rule: Join.induct)
  case 1
  then show ?case by simp
next
  case (2 x)
  then show ?case by (simp add: Split_no_sep)
next
  case (3 x y ys)
  then show ?case by (simp add: Split_append_sep)
qed

lemma Join_eq_Nil:
  "Join xs sep = [] \<Longrightarrow> \<forall>x \<in> set xs. x \<noteq> [] \<Longrightarrow> xs = []"
  by (induction xs sep rule: Join.induct) auto

section \<open>The conversions of a start vote\<close>

lemma options_roundtrip:
  "map ((\<lambda>v. \<lparr>pvo_Id = vo_ID v, pvo_Description = vo_Description v, pvo_Bits = vo_Bits v\<rparr>) \<circ>
        (\<lambda>v. \<lparr>vo_Token = tok, vo_ID = pvo_Id v, vo_Description = pvo_Description v,
                 vo_Bits = pvo_Bits v\<rparr>)) opts = opts"
  by (induction opts) auto

lemma tickets_roundtrip:
  assumes "\<forall>t \<in> set tix. t \<noteq> [] \<and> CHR '','' \<notin> set t"
  shows "Join tix '','' \<noteq> [] \<Longrightarrow> Split (Join tix '','') (CHR '','') = tix"
    and "Join tix '','' = [] \<Longrightarrow> tix = []"
proof -
  show "Join tix '','' = [] \<Longrightarrow> tix = []"
    using assms Join_eq_Nil [of tix "'',''"] by blast
  assume "Join tix '','' \<noteq> []"
  then have "tix \<noteq> []" by auto
  with assms show "Split (Join tix '','') (CHR '','') = tix"
    by (intro Split_Join) auto
qed

lemma Sprint_1234: "Sprint_uint64 1234 = ''1234''"
  by (simp add: Sprint_uint64_def FormatUint.simps digit_char_def)

text \<open>
  Claim C10. \<^verbatim>\<open>convertStartVoteToFonero\<close> is a left inverse of
  \<^verbatim>\<open>convertStartVoteFromFonero\<close> on what the cache stores: for every \<open>StartVote\<close> \<open>sv\<close>,
  every \<open>StartVoteReply\<close> \<open>svr\<close> whose eligible tickets are non-empty strings without a
  comma, and every end height \<open>h\<close>, converting \<open>(sv, svr, h)\<close> to a row and back gives
  \<open>sv\<close> itself (public key, signature and every field of its vote, options included) and
  \<open>svr\<close> with its end height replaced by the decimal rendering of \<open>h\<close> (start block
  height and hash and the ticket list are recovered). The hypothesis holds of the empty
  ticket list, which comes back empty.
\<close>

theorem convertStartVote_roundtrip:
  assumes "\<forall>t \<in> set (svr_EligibleTickets svr). t \<noteq> [] \<and> CHR '','' \<notin> set t"
  shows "convertStartVoteToFonero (convertStartVoteFromFonero sv svr h) =
           (sv, svr\<lparr>svr_EndHeight := Sprint_uint64 h\<rparr>)"
proof -
  let ?s = "convertStartVoteFromFonero sv svr h"
  have opts: "map (\<lambda>v. \<lparr>pvo_Id = vo_ID v, pvo_Description = vo_Description v, pvo_Bits = vo_Bits v\<rparr>)
                (sv_Options ?s) = v_Options (psv_Vote sv)"
    by (simp add: convertStartVoteFromFonero_def options_roundtrip)
  have tix: "(if sv_EligibleTickets ?s \<noteq> [] then Split (sv_EligibleTickets ?s) (CHR '','') else [])
               = svr_EligibleTickets svr"
    using tickets_roundtrip [OF assms] by (auto simp add: convertStartVoteFromFonero_def)
  have fst: "fst (convertStartVoteToFonero ?s) = sv"
    unfolding convertStartVoteToFonero_def Let_def fst_conv opts
    by (simp add: convertStartVoteFromFonero_def)
  have snd: "snd (convertStartVoteToFonero ?s) = svr\<lparr>svr_EndHeight := Sprint_uint64 h\<rparr>"
    unfolding convertStartVoteToFonero_def Let_def snd_conv tix
    by (simp add: convertStartVoteFromFonero_def)
  from fst snd show ?thesis by (simp add: prod_eq_iff)
qed

theorem convertStartVote_roundtrip_witness:
  "convertStartVoteToFonero
     (convertStartVoteFromFonero
        \<lparr>psv_PublicKey = ''pk'',
         psv_Vote = \<lparr>v_Token = ''tok'', v_Mask = 3, v_Duration = 2016, v_QuorumPercentage = 20,
                     v_PassPercentage = 60,
                     v_Options = [\<lparr>pvo_Id = ''no'', pvo_Description = ''reject'', pvo_Bits = 1\<rparr>,
                                  \<lparr>pvo_Id = ''yes'', pvo_Description = ''approve'', pvo_Bits = 2\<rparr>]\<rparr>,
         psv_Signature = ''sig''\<rparr>
        \<lparr>svr_StartBlockHeight = ''1000'', svr_StartBlockHash = ''00ab'', svr_EndHeight = ''0001234'',
         svr_EligibleTickets = [''t1'', ''t2'', ''t3'']\<rparr> 1234) =
   (\<lparr>psv_PublicKey = ''pk'',
     psv_Vote = \<lparr>v_Token = ''tok'', v_Mask = 3, v_Duration = 2016, v_QuorumPercentage = 20,
                 v_PassPercentage = 60,
                 v_Options = [\<lparr>pvo_Id = ''no'', pvo_Description = ''reject'', pvo_Bits = 1\<rparr>,
                              \<lparr>pvo_Id = ''yes'', pvo_Description = ''approve'', pvo_Bits = 2\<rparr>]\<rparr>,
     psv_Signature = ''sig''\<rparr>,
    \<lparr>svr_StartBlockHeight = ''1000'', svr_StartBlockHash = ''00ab'', svr_EndHeight = ''1234'',
     svr_EligibleTickets = [''t1'', ''t2'', ''t3'']\<rparr>)"
  using convertStartVote_roundtrip
    [of "\<lparr>svr_StartBlockHeight = ''1000'', svr_StartBlockHash = ''00ab'', svr_EndHeight = ''0001234'',
         svr_EligibleTickets = [''t1'', ''t2'', ''t3'']\<rparr>" _ 1234]
  by (simp add: Sprint_1234)


section \<open>Statements on a database whose driver does not fail\<close>

lemma stmt_fails_no_faults: "faults db = [] \<Longrightarrow> \<not> stmt_fails db"
  by (simp add: stmt_fails_def)

lemma stmt_done_no_faults: "faults db = [] \<Longrightarrow> stmt_done db = db"
  by (simp add: stmt_done_def)

lemma Find_slice_no_faults:
  "faults db = [] \<Longrightarrow> Find_slice q db = (Inr (q (tabs db)), db)"
  by (simp add: Find_slice_def stmt_fails_no_faults stmt_done_no_faults)

lemma Find_struct_no_faults:
  "faults db = [] \<Longrightarrow>
   Find_struct q db =
     ((case q (tabs db) of [] \<Rightarrow> Inl ErrRecordNotFound | r # rs \<Rightarrow> Inr (last (r # rs))), db)"
  by (simp add: Find_struct_def stmt_fails_no_faults stmt_done_no_faults)

lemma Count_no_faults:
  "faults db = [] \<Longrightarrow> Count q db = (Inr (length (q (tabs db))), db)"
  by (simp add: Count_def stmt_fails_no_faults stmt_done_no_faults)

lemma Write_stmt_no_faults:
  "faults db = [] \<Longrightarrow>
   Write_stmt w db =
     (case w (tabs db) of Inl err \<Rightarrow> (Some err, db) | Inr t \<Rightarrow> (None, db\<lparr>tabs := t\<rparr>))"
  by (simp add: Write_stmt_def stmt_fails_no_faults stmt_done_no_faults split: sum.splits)

lemmas Cmd_defs =
  CmdAuthorizeVote_def CmdStartVote_def CmdVoteDetails_def CmdBallot_def CmdBestBlock_def
  CmdNewComment_def CmdLikeComment_def CmdCensorComment_def CmdGetComment_def
  CmdGetComments_def CmdProposalVotes_def CmdCommentLikes_def CmdProposalCommentsLikes_def
  CmdInventory_def CmdLoadVoteResults_def CmdTokenInventory_def CmdVoteSummary_def

section \<open>The read-only collection queries\<close>

lemma Exec_GetComments: "Exec cd d CmdGetComments p r = cmdGetComments cd d p"
  by (simp add: Exec_def Cmd_defs)

lemma Exec_CommentLikes: "Exec cd d CmdCommentLikes p r = cmdCommentLikes cd d p"
  by (simp add: Exec_def Cmd_defs)

lemma Exec_ProposalCommentsLikes:
  "Exec cd d CmdProposalCommentsLikes p r = cmdProposalCommentsLikes cd d p"
  by (simp add: Exec_def Cmd_defs)

lemma Exec_ProposalVotes: "Exec cd d CmdProposalVotes p r = cmdProposalVotes cd d p"
  by (simp add: Exec_def Cmd_defs)

lemma filter_empty_conv': "(\<forall>x \<in> set xs. \<not> P x) \<Longrightarrow> filter P xs = []"
  by (induction xs) auto

text \<open>
  Claim C8. On a database whose driver does not fail, each of the collection queries
  \<^verbatim>\<open>getcomments\<close>, \<^verbatim>\<open>commentlikes\<close>, \<^verbatim>\<open>proposalcommentslikes\<close> and \<^verbatim>\<open>proposalvotes\<close>,
  run through \<^verbatim>\<open>Exec\<close> with a payload that decodes and whose token (and comment id)
  matches no stored row, returns the encoding of the reply with the empty collection and
  a nil error, and leaves the database as it was. For \<^verbatim>\<open>proposalvotes\<close> the reply also
  carries the conversion of the zero \<open>StartVote\<close>.
\<close>

theorem empty_collection_replies:
  assumes "faults d = []"
  shows
    "(\<forall>gc s. DecodeGetComments cd p = Inr gc \<and>
        (\<forall>c \<in> set (comments (tabs d)). c_Token c \<noteq> gcs_Token gc) \<and>
        EncodeGetCommentsReply cd \<lparr>gcsr_Comments = []\<rparr> = Inr s \<longrightarrow>
        Exec cd d CmdGetComments p r = ((s, None), d)) \<and>
     (\<forall>cl s. DecodeCommentLikes cd p = Inr cl \<and>
        (\<forall>l \<in> set (comment_likes (tabs d)).
            \<not> (lc_Token l = cl_Token cl \<and> lc_CommentID l = cl_CommentID cl)) \<and>
        EncodeCommentLikesReply cd \<lparr>clr_CommentLikes = []\<rparr> = Inr s \<longrightarrow>
        Exec cd d CmdCommentLikes p r = ((s, None), d)) \<and>
     (\<forall>cl s. DecodeGetProposalCommentsLikes cd p = Inr cl \<and>
        (\<forall>l \<in> set (comment_likes (tabs d)). lc_Token l \<noteq> gpcl_Token cl) \<and>
        EncodeGetProposalCommentsLikesReply cd \<lparr>gpclr_CommentsLikes = []\<rparr> = Inr s \<longrightarrow>
        Exec cd d CmdProposalCommentsLikes p r = ((s, None), d)) \<and>
     (\<forall>vr s. DecodeVoteResults cd p = Inr vr \<and>
        (\<forall>sv \<in> set (start_votes (tabs d)). sv_Token sv \<noteq> pvr_Token vr) \<and>
        (\<forall>c \<in> set (cast_votes (tabs d)). cv_Token c \<noteq> pvr_Token vr) \<and>
        EncodeVoteResultsReply cd
          \<lparr>vrr_StartVote = fst (convertStartVoteToFonero zero_StartVote), vrr_CastVotes = []\<rparr> = Inr s \<longrightarrow>
        Exec cd d CmdProposalVotes p r = ((s, None), d))"
proof (intro conjI allI impI)
  fix gc s
  assume "DecodeGetComments cd p = Inr gc \<and>
        (\<forall>c \<in> set (comments (tabs d)). c_Token c \<noteq> gcs_Token gc) \<and>
        EncodeGetCommentsReply cd \<lparr>gcsr_Comments = []\<rparr> = Inr s"
  then show "Exec cd d CmdGetComments p r = ((s, None), d)"
    using assms
    by (simp add: Exec_GetComments cmdGetComments_def Find_slice_no_faults filter_empty_conv')
next
  fix cl s
  assume "DecodeCommentLikes cd p = Inr cl \<and>
        (\<forall>l \<in> set (comment_likes (tabs d)).
            \<not> (lc_Token l = cl_Token cl \<and> lc_CommentID l = cl_CommentID cl)) \<and>
        EncodeCommentLikesReply cd \<lparr>clr_CommentLikes = []\<rparr> = Inr s"
  then show "Exec cd d CmdCommentLikes p r = ((s, None), d)"
    using assms
    by (simp add: Exec_CommentLikes cmdCommentLikes_def Find_slice_no_faults filter_empty_conv')
next
  fix cl s
  assume "DecodeGetProposalCommentsLikes cd p = Inr cl \<and>
        (\<forall>l \<in> set (comment_likes (tabs d)). lc_Token l \<noteq> gpcl_Token cl) \<and>
        EncodeGetProposalCommentsLikesReply cd \<lparr>gpclr_CommentsLikes = []\<rparr> = Inr s"
  then show "Exec cd d CmdProposalCommentsLikes p r = ((s, None), d)"
    using assms
    by (simp add: Exec_ProposalCommentsLikes cmdProposalCommentsLikes_def Find_slice_no_faults
        filter_empty_conv')
next
  fix vr s
  assume "DecodeVoteResults cd p = Inr vr \<and>
        (\<forall>sv \<in> set (start_votes (tabs d)). sv_Token sv \<noteq> pvr_Token vr) \<and>
        (\<forall>c \<in> set (cast_votes (tabs d)). cv_Token c \<noteq> pvr_Token vr) \<and>
        EncodeVoteResultsReply cd
          \<lparr>vrr_StartVote = fst (convertStartVoteToFonero zero_StartVote), vrr_CastVotes = []\<rparr> = Inr s"
  then show "Exec cd d CmdProposalVotes p r = ((s, None), d)"
    using assms
    by (simp add: Exec_ProposalVotes cmdProposalVotes_def Find_slice_no_faults
        Find_struct_no_faults filter_empty_conv' split_beta)
qed


theorem empty_collection_replies_witness:
  "(let cd = fail_codec
       \<lparr>DecodeGetComments := (\<lambda>p. Inr \<lparr>gcs_Token = p\<rparr>),
        DecodeCommentLikes := (\<lambda>p. Inr \<lparr>cl_Token = p, cl_CommentID = ''1''\<rparr>),
        DecodeGetProposalCommentsLikes := (\<lambda>p. Inr \<lparr>gpcl_Token = p\<rparr>),
        DecodeVoteResults := (\<lambda>p. Inr \<lparr>pvr_Token = p\<rparr>),
        EncodeGetCommentsReply := (\<lambda>r. Inr (''comments '' @ Join (map pc_CommentID (gcsr_Comments r)) '','')),
        EncodeCommentLikesReply := (\<lambda>r. Inr (''likes '' @ Join (map plc_Action (clr_CommentLikes r)) '','')),
        EncodeGetProposalCommentsLikesReply :=
          (\<lambda>r. Inr (''likes '' @ Join (map plc_Action (gpclr_CommentsLikes r)) '','')),
        EncodeVoteResultsReply := (\<lambda>r. Inr (''votes '' @ Join (map pcv_Ticket (vrr_CastVotes r)) '',''))\<rparr>;
       d = \<lparr>tabs = empty_tables
               \<lparr>comments := [\<lparr>c_Key = ''aa1'', c_Token = ''aa'', c_ParentID = ''0'', c_Comment = ''hello'',
                               c_Signature = ''sig'', c_PublicKey = ''pk'', c_CommentID = ''1'',
                               c_Receipt = ''rc'', c_Timestamp = 5, c_Censored = False\<rparr>],
                comment_likes := [\<lparr>lc_Token = ''aa'', lc_CommentID = ''1'', lc_Action = ''1'',
                                    lc_Signature = ''sig'', lc_PublicKey = ''pk''\<rparr>],
                cast_votes := [\<lparr>cv_Token = ''aa'', cv_Ticket = ''t1'', cv_VoteBit = ''2'',
                                 cv_Signature = ''sig'', cv_TokenVoteBit = ''aa2''\<rparr>]\<rparr>,
            faults = []\<rparr>
    in Exec cd d CmdGetComments ''bb'' [] = ((''comments '', None), d) \<and>
       Exec cd d CmdCommentLikes ''bb'' [] = ((''likes '', None), d) \<and>
       Exec cd d CmdProposalCommentsLikes ''bb'' [] = ((''likes '', None), d) \<and>
       Exec cd d CmdProposalVotes ''bb'' [] = ((''votes '', None), d))"
  unfolding Let_def
  apply (intro conjI)
     apply (rule empty_collection_replies [THEN conjunct1, rule_format, where gc = "\<lparr>gcs_Token = ''bb''\<rparr>"])
      apply (simp_all add: fail_codec_def empty_tables_def)[2]
    apply (rule empty_collection_replies [THEN conjunct2, THEN conjunct1, rule_format,
        where cl = "\<lparr>cl_Token = ''bb'', cl_CommentID = ''1''\<rparr>"])
     apply (simp_all add: fail_codec_def empty_tables_def)[2]
   apply (rule empty_collection_replies [THEN conjunct2, THEN conjunct2, THEN conjunct1, rule_format,
        where cl = "\<lparr>gpcl_Token = ''bb''\<rparr>"])
    apply (simp_all add: fail_codec_def empty_tables_def)[2]
  apply (rule empty_collection_replies [THEN conjunct2, THEN conjunct2, THEN conjunct2, rule_format,
        where vr = "\<lparr>pvr_Token = ''bb''\<rparr>"])
   apply (simp_all add: fail_codec_def empty_tables_def)
  done


section \<open>Censoring a comment\<close>

lemma Exec_CensorComment: "Exec cd d CmdCensorComment p r = cmdCensorComment cd d p r"
  by (simp add: Exec_def Cmd_defs)

lemma Exec_GetComment: "Exec cd d CmdGetComment p r = cmdGetComment cd d p"
  by (simp add: Exec_def Cmd_defs)

lemma filter_key_censored:
  assumes "distinct (map c_Key rows)" and "c \<in> set rows"
  shows "filter (\<lambda>x. c_Key x = c_Key c)
           (map (\<lambda>x. if c_Key x = c_Key c then x\<lparr>c_Comment := [], c_Censored := True\<rparr> else x) rows) =
         [c\<lparr>c_Comment := [], c_Censored := True\<rparr>]"
  using assms
proof (induction rows)
  case Nil
  then show ?case by simp
next
  case (Cons x rows)
  show ?case
  proof (cases "x = c")
    case True
    with Cons.prems have "\<forall>y \<in> set rows. c_Key y \<noteq> c_Key c" by (auto simp: image_iff)
    then have "filter (\<lambda>x. c_Key x = c_Key c)
           (map (\<lambda>x. if c_Key x = c_Key c then x\<lparr>c_Comment := [], c_Censored := True\<rparr> else x) rows) = []"
      by (induction rows) auto
    with True show ?thesis by simp
  next
    case False
    with Cons.prems have "c \<in> set rows" and "c_Key x \<noteq> c_Key c" and "distinct (map c_Key rows)"
      by (auto simp: image_iff)
    with Cons.IH show ?thesis by simp
  qed
qed

text \<open>
  Claim C6. On a database whose driver does not fail and whose \<open>comments\<close> rows have
  distinct keys, let \<open>c\<close> be the stored comment with the (non-blank) key
  \<open>token @ commentID\<close> of a \<^verbatim>\<open>censorcomment\<close> payload. The command returns the reply
  payload with a nil error; afterwards the row \<open>c\<close> has become \<open>c\<close> with the comment
  text empty and the censored flag set, every other column as before, and every row
  with another key is unchanged; the censored row is still stored, and a \<^verbatim>\<open>getcomment\<close>
  for the same token and comment id succeeds with the encoding of that row, which is the
  reply of the uncensored row with an empty comment and \<open>Censored = true\<close>.
\<close>

theorem censor_comment_frame:
  assumes nofault: "faults d = []"
    and dec: "DecodeCensorComment cd p = Inr cc"
    and key: "cc_Token cc @ cc_CommentID cc \<noteq> []"
    and pk: "distinct (map c_Key (comments (tabs d)))"
    and row: "c \<in> set (comments (tabs d))" "c_Key c = cc_Token cc @ cc_CommentID cc"
    and get: "DecodeGetComment cd q = Inr gc" "gc_Token gc = cc_Token cc"
             "gc_CommentID gc = cc_CommentID cc"
    and enc: "EncodeGetCommentReply cd
                \<lparr>gcr_Comment = convertCommentToFonero (c\<lparr>c_Comment := [], c_Censored := True\<rparr>)\<rparr> = Inr s"
  shows "\<exists>d'. Exec cd d CmdCensorComment p r = ((r, None), d') \<and>
           comments (tabs d') =
             map (\<lambda>x. if c_Key x = c_Key c then x\<lparr>c_Comment := [], c_Censored := True\<rparr> else x)
               (comments (tabs d)) \<and>
           c\<lparr>c_Comment := [], c_Censored := True\<rparr> \<in> set (comments (tabs d')) \<and>
           Exec cd d' CmdGetComment q [] = ((s, None), d') \<and>
           convertCommentToFonero (c\<lparr>c_Comment := [], c_Censored := True\<rparr>) =
             (convertCommentToFonero c)\<lparr>pc_Comment := [], pc_Censored := True\<rparr>"
proof -
  let ?upd = "\<lambda>x. if c_Key x = c_Key c then x\<lparr>c_Comment := [], c_Censored := True\<rparr> else x"
  let ?d' = "d\<lparr>tabs := (tabs d)\<lparr>comments := map ?upd (comments (tabs d))\<rparr>\<rparr>"
  from key row have cond: "\<And>k. primary_key_cond (c_Key c) k = (k = c_Key c)"
    by (auto simp add: primary_key_cond_def)
  have censor: "Exec cd d CmdCensorComment p r = ((r, None), ?d')"
    using nofault dec
    by (simp add: Exec_CensorComment cmdCensorComment_def Write_stmt_no_faults cond row(2) [symmetric])
  have rows: "filter (\<lambda>x. c_Key x = c_Key c) (comments (tabs ?d')) =
                [c\<lparr>c_Comment := [], c_Censored := True\<rparr>]"
    using filter_key_censored [OF pk row(1)] by simp
  have mem: "c\<lparr>c_Comment := [], c_Censored := True\<rparr> \<in> set (comments (tabs ?d'))"
    using row(1) by (auto simp: image_iff intro!: bexI [of _ c])
  have "faults ?d' = []" using nofault by simp
  then have getc: "Exec cd ?d' CmdGetComment q [] = ((s, None), ?d')"
    using get enc rows
    by (simp add: Exec_GetComment cmdGetComment_def Find_struct_no_faults cond row(2) [symmetric])
  have conv: "convertCommentToFonero (c\<lparr>c_Comment := [], c_Censored := True\<rparr>) =
             (convertCommentToFonero c)\<lparr>pc_Comment := [], pc_Censored := True\<rparr>"
    by (simp add: convertCommentToFonero_def)
  from censor mem getc conv show ?thesis
    by (intro exI [of _ ?d']) simp
qed


theorem censor_comment_frame_witness:
  "(let cd = fail_codec
       \<lparr>DecodeCensorComment := (\<lambda>p. Inr \<lparr>cc_Token = ''aa'', cc_CommentID = p\<rparr>),
        DecodeGetComment := (\<lambda>p. Inr \<lparr>gc_Token = ''aa'', gc_CommentID = p\<rparr>),
        EncodeGetCommentReply :=
          (\<lambda>r. Inr (pc_Comment (gcr_Comment r) @
                     (if pc_Censored (gcr_Comment r) then ''(censored)'' else ''(visible)'')))\<rparr>;
       c1 = \<lparr>c_Key = ''aa1'', c_Token = ''aa'', c_ParentID = ''0'', c_Comment = ''hello'',
             c_Signature = ''sig1'', c_PublicKey = ''pk1'', c_CommentID = ''1'',
             c_Receipt = ''rc1'', c_Timestamp = 5, c_Censored = False\<rparr>;
       c2 = \<lparr>c_Key = ''aa2'', c_Token = ''aa'', c_ParentID = ''1'', c_Comment = ''world'',
             c_Signature = ''sig2'', c_PublicKey = ''pk2'', c_CommentID = ''2'',
             c_Receipt = ''rc2'', c_Timestamp = 6, c_Censored = False\<rparr>;
       d = \<lparr>tabs = empty_tables\<lparr>comments := [c1, c2]\<rparr>, faults = []\<rparr>;
       d' = \<lparr>tabs = empty_tables\<lparr>comments := [c1\<lparr>c_Comment := [], c_Censored := True\<rparr>, c2]\<rparr>,
             faults = []\<rparr>
    in Exec cd d CmdCensorComment ''1'' ''receipt'' = ((''receipt'', None), d') \<and>
       Exec cd d' CmdGetComment ''1'' [] = ((''(censored)'', None), d') \<and>
       Exec cd d CmdGetComment ''1'' [] = ((''hello(visible)'', None), d))"
proof -
  let ?cd = "fail_codec
       \<lparr>DecodeCensorComment := (\<lambda>p. Inr \<lparr>cc_Token = ''aa'', cc_CommentID = p\<rparr>),
        DecodeGetComment := (\<lambda>p. Inr \<lparr>gc_Token = ''aa'', gc_CommentID = p\<rparr>),
        EncodeGetCommentReply :=
          (\<lambda>r. Inr (pc_Comment (gcr_Comment r) @
                     (if pc_Censored (gcr_Comment r) then ''(censored)'' else ''(visible)'')))\<rparr>"
  let ?c1 = "\<lparr>c_Key = ''aa1'', c_Token = ''aa'', c_ParentID = ''0'', c_Comment = ''hello'',
             c_Signature = ''sig1'', c_PublicKey = ''pk1'', c_CommentID = ''1'',
             c_Receipt = ''rc1'', c_Timestamp = 5, c_Censored = False\<rparr>"
  let ?c2 = "\<lparr>c_Key = ''aa2'', c_Token = ''aa'', c_ParentID = ''1'', c_Comment = ''world'',
             c_Signature = ''sig2'', c_PublicKey = ''pk2'', c_CommentID = ''2'',
             c_Receipt = ''rc2'', c_Timestamp = 6, c_Censored = False\<rparr>"
  let ?d = "\<lparr>tabs = empty_tables\<lparr>comments := [?c1, ?c2]\<rparr>, faults = []\<rparr>"
  have "\<exists>d'. Exec ?cd ?d CmdCensorComment ''1'' ''receipt'' = ((''receipt'', None), d') \<and>
           comments (tabs d') =
             map (\<lambda>x. if c_Key x = c_Key ?c1 then x\<lparr>c_Comment := [], c_Censored := True\<rparr> else x)
               (comments (tabs ?d)) \<and>
           ?c1\<lparr>c_Comment := [], c_Censored := True\<rparr> \<in> set (comments (tabs d')) \<and>
           Exec ?cd d' CmdGetComment ''1'' [] = ((''(censored)'', None), d') \<and>
           convertCommentToFonero (?c1\<lparr>c_Comment := [], c_Censored := True\<rparr>) =
             (convertCommentToFonero ?c1)\<lparr>pc_Comment := [], pc_Censored := True\<rparr>"
    by (rule censor_comment_frame
          [where cc = "\<lparr>cc_Token = ''aa'', cc_CommentID = ''1''\<rparr>"
             and gc = "\<lparr>gc_Token = ''aa'', gc_CommentID = ''1''\<rparr>"])
       (simp_all add: fail_codec_def empty_tables_def convertCommentToFonero_def)
  then obtain d' where
      1: "Exec ?cd ?d CmdCensorComment ''1'' ''receipt'' = ((''receipt'', None), d')"
    and 2: "Exec ?cd d' CmdGetComment ''1'' [] = ((''(censored)'', None), d')"
    by blast
  have 3: "Exec ?cd ?d CmdCensorComment ''1'' ''receipt'' =
        ((''receipt'', None),
         \<lparr>tabs = empty_tables\<lparr>comments := [?c1\<lparr>c_Comment := [], c_Censored := True\<rparr>, ?c2]\<rparr>,
          faults = []\<rparr>)"
    by (simp add: Exec_CensorComment cmdCensorComment_def Write_stmt_no_faults fail_codec_def
        empty_tables_def primary_key_cond_def)
  have 4: "Exec ?cd ?d CmdGetComment ''1'' [] = ((''hello(visible)'', None), ?d)"
    by (simp add: Exec_GetComment cmdGetComment_def Find_struct_no_faults fail_codec_def
        empty_tables_def primary_key_cond_def convertCommentToFonero_def)
  from 1 3 have "d' = \<lparr>tabs = empty_tables\<lparr>comments := [?c1\<lparr>c_Comment := [], c_Censored := True\<rparr>, ?c2]\<rparr>,
          faults = []\<rparr>" by simp
  with 2 3 4 show ?thesis unfolding Let_def by simp
qed


section \<open>Ballots are recorded whole or not at all\<close>

text \<open>
  From here on the driver may fail at any statement: the schedule \<open>faults d\<close> is
  arbitrary.
\<close>

lemma Exec_Ballot: "Exec cd d CmdBallot p r = cmdNewBallot cd d p r"
  by (simp add: Exec_def Cmd_defs)

lemma stmt_fails_iff: "stmt_fails db \<longleftrightarrow> faults db \<noteq> [] \<and> hd (faults db)"
  by (cases "faults db") (auto simp: stmt_fails_def)

lemma fault_in_take_Suc:
  "True \<in> set (take (Suc n) fs) \<longleftrightarrow> fs \<noteq> [] \<and> (hd fs \<or> True \<in> set (take n (tl fs)))"
  by (cases fs) auto

lemma fault_in_take_Suc_last:
  "True \<in> set (take (Suc n) fs) \<longleftrightarrow> True \<in> set (take n fs) \<or> (drop n fs \<noteq> [] \<and> hd (drop n fs))"
proof (induction n arbitrary: fs)
  case 0
  then show ?case by (cases fs) auto
next
  case (Suc n)
  show ?case
  proof (cases fs)
    case Nil
    then show ?thesis by simp
  next
    case (Cons f fs')
    with Suc [of fs'] show ?thesis by auto
  qed
qed

lemma newCastVote_ok:
  "\<not> stmt_fails tx \<Longrightarrow>
   newCastVote tx cv =
     (None, tx\<lparr>tabs := (tabs tx)\<lparr>cast_votes := cast_votes (tabs tx) @ [cv]\<rparr>,
               faults := tl (faults tx)\<rparr>)"
  by (simp add: newCastVote_def Write_stmt_def Create_CastVote_def stmt_done_def)

lemma newCastVote_fail:
  "stmt_fails tx \<Longrightarrow> newCastVote tx cv = (Some ErrStorage, stmt_done tx)"
  by (simp add: newCastVote_def Write_stmt_def)


lemma insert_votes_ok:
  "True \<notin> set (take (length vs) (faults tx)) \<Longrightarrow>
   insert_votes tx vs =
     (None, tx\<lparr>tabs := (tabs tx)\<lparr>cast_votes := cast_votes (tabs tx) @ map convertCastVoteFromFonero vs\<rparr>,
                faults := drop (length vs) (faults tx)\<rparr>)"
proof (induction vs arbitrary: tx)
  case Nil
  then show ?case by simp
next
  case (Cons v vs)
  let ?tx' = "tx\<lparr>tabs := (tabs tx)\<lparr>cast_votes := cast_votes (tabs tx) @ [convertCastVoteFromFonero v]\<rparr>,
               faults := tl (faults tx)\<rparr>"
  from Cons.prems have "\<not> True \<in> set (take (Suc (length vs)) (faults tx))" by simp
  then have nf: "\<not> stmt_fails tx" and rest: "True \<notin> set (take (length vs) (faults ?tx'))"
    unfolding fault_in_take_Suc stmt_fails_iff by auto
  have step: "newCastVote tx (convertCastVoteFromFonero v) = (None, ?tx')"
    using nf by (rule newCastVote_ok)
  have "insert_votes tx (v # vs) = insert_votes ?tx' vs"
    by (simp add: step)
  also have "\<dots> = (None, ?tx'\<lparr>tabs := (tabs ?tx')\<lparr>cast_votes := cast_votes (tabs ?tx') @
                        map convertCastVoteFromFonero vs\<rparr>,
                faults := drop (length vs) (faults ?tx')\<rparr>)"
    using rest by (rule Cons.IH)
  finally show ?case by (simp add: drop_Suc)
qed

lemma insert_votes_fail:
  "True \<in> set (take (length vs) (faults tx)) \<Longrightarrow>
   \<exists>tx'. insert_votes tx vs = (Some ErrStorage, tx')"
proof (induction vs arbitrary: tx)
  case Nil
  then show ?case by simp
next
  case (Cons v vs)
  show ?case
  proof (cases "stmt_fails tx")
    case True
    then show ?thesis by (simp add: newCastVote_fail)
  next
    case False
    let ?tx' = "tx\<lparr>tabs := (tabs tx)\<lparr>cast_votes := cast_votes (tabs tx) @ [convertCastVoteFromFonero v]\<rparr>,
               faults := tl (faults tx)\<rparr>"
    have step: "newCastVote tx (convertCastVoteFromFonero v) = (None, ?tx')"
      using False by (rule newCastVote_ok)
    from Cons.prems have "True \<in> set (take (Suc (length vs)) (faults tx))" by simp
    with False have "True \<in> set (take (length vs) (faults ?tx'))"
      unfolding fault_in_take_Suc stmt_fails_iff by auto
    then obtain tx'' where "insert_votes ?tx' vs = (Some ErrStorage, tx'')"
      using Cons.IH by blast
    then show ?thesis by (simp add: step)
  qed
qed


text \<open>
  Claim C5. \<^verbatim>\<open>cmdNewBallot\<close>, run through \<^verbatim>\<open>Exec\<close> on a payload that decodes to a ballot
  of \<open>N\<close> votes, sends \<open>N\<close> inserts and a commit inside one transaction. If the driver
  fails at any of these \<open>N + 1\<close> statements, so in particular if an insert fails, the
  command returns an empty payload and an error, and the tables are those before the
  command: no vote of the batch is stored. Otherwise it returns the reply payload
  unchanged with a nil error, and the \<open>cast_votes\<close> table holds, after its former rows,
  the \<open>N\<close> converted votes in the order of the ballot.
\<close>

theorem ballot_all_or_nothing:
  assumes "DecodeBallot cd p = Inr b"
  shows "if True \<in> set (take (Suc (length (b_Votes b))) (faults d))
         then \<exists>err d'. Exec cd d CmdBallot p r = (([], Some err), d') \<and> tabs d' = tabs d
         else Exec cd d CmdBallot p r =
                ((r, None),
                 d\<lparr>tabs := (tabs d)\<lparr>cast_votes := cast_votes (tabs d) @
                                           map convertCastVoteFromFonero (b_Votes b)\<rparr>,
                   faults := drop (Suc (length (b_Votes b))) (faults d)\<rparr>)"
proof (cases "True \<in> set (take (length (b_Votes b)) (faults d))")
  case True
  then obtain tx' where "insert_votes d (b_Votes b) = (Some ErrStorage, tx')"
    using insert_votes_fail by blast
  then have "Exec cd d CmdBallot p r = (([], Some ErrStorage), Rollback d tx')"
    using assms by (simp add: Exec_Ballot cmdNewBallot_def Begin_def)
  moreover have "tabs (Rollback d tx') = tabs d"
    by (simp add: Rollback_def)
  moreover from True have "True \<in> set (take (Suc (length (b_Votes b))) (faults d))"
    unfolding fault_in_take_Suc_last by blast
  ultimately show ?thesis by simp
next
  case False
  let ?tx' = "d\<lparr>tabs := (tabs d)\<lparr>cast_votes := cast_votes (tabs d) @
                                           map convertCastVoteFromFonero (b_Votes b)\<rparr>,
               faults := drop (length (b_Votes b)) (faults d)\<rparr>"
  from False have ins: "insert_votes d (b_Votes b) = (None, ?tx')"
    by (rule insert_votes_ok)
  have commit: "stmt_fails ?tx' \<longleftrightarrow> True \<in> set (take (Suc (length (b_Votes b))) (faults d))"
    using False unfolding fault_in_take_Suc_last stmt_fails_iff by simp
  have run: "Exec cd d CmdBallot p r =
               (case Commit d ?tx' of
                  (Some err, d') \<Rightarrow> (([], Some (Errorf ''commit transaction failed'' err)), d')
                | (None, d') \<Rightarrow> ((r, None), d'))"
    using assms by (simp add: Exec_Ballot cmdNewBallot_def Begin_def ins)
  show ?thesis
  proof (cases "stmt_fails ?tx'")
    case True
    then have "Commit d ?tx' = (Some ErrStorage, stmt_done (Rollback d ?tx'))"
      by (simp add: Commit_def)
    moreover have "tabs (stmt_done (Rollback d ?tx')) = tabs d"
      by (simp add: stmt_done_def Rollback_def)
    moreover have "True \<in> set (take (Suc (length (b_Votes b))) (faults d))"
      using True commit by simp
    ultimately show ?thesis
      by (simp add: run)
  next
    case nofail: False
    then have "Commit d ?tx' = (None, stmt_done ?tx')"
      by (simp add: Commit_def)
    moreover have "stmt_done ?tx' =
        d\<lparr>tabs := (tabs d)\<lparr>cast_votes := cast_votes (tabs d) @
                                           map convertCastVoteFromFonero (b_Votes b)\<rparr>,
          faults := drop (Suc (length (b_Votes b))) (faults d)\<rparr>"
      by (simp add: stmt_done_def drop_Suc tl_drop)
    moreover have "True \<notin> set (take (Suc (length (b_Votes b))) (faults d))"
      using nofail commit by simp
    ultimately show ?thesis
      by (simp add: run)
  qed
qed


theorem ballot_all_or_nothing_witness:
  "(let v1 = \<lparr>pcv_Token = ''aa'', pcv_Ticket = ''t1'', pcv_VoteBit = ''2'', pcv_Signature = ''s1''\<rparr>;
        v2 = \<lparr>pcv_Token = ''aa'', pcv_Ticket = ''t2'', pcv_VoteBit = ''1'', pcv_Signature = ''s2''\<rparr>;
        cd = fail_codec\<lparr>DecodeBallot := (\<lambda>p. Inr \<lparr>b_Votes = [v1, v2]\<rparr>)\<rparr>;
        good = \<lparr>tabs = empty_tables, faults = []\<rparr>;
        bad = \<lparr>tabs = empty_tables, faults = [False, True]\<rparr>
    in Exec cd good CmdBallot ''ballot'' ''receipts'' =
         ((''receipts'', None),
          \<lparr>tabs = empty_tables
             \<lparr>cast_votes := [\<lparr>cv_Token = ''aa'', cv_Ticket = ''t1'', cv_VoteBit = ''2'',
                               cv_Signature = ''s1'', cv_TokenVoteBit = ''aa2''\<rparr>,
                              \<lparr>cv_Token = ''aa'', cv_Ticket = ''t2'', cv_VoteBit = ''1'',
                               cv_Signature = ''s2'', cv_TokenVoteBit = ''aa1''\<rparr>]\<rparr>,
            faults = []\<rparr>) \<and>
       (\<exists>err d'. Exec cd bad CmdBallot ''ballot'' ''receipts'' = (([], Some err), d') \<and>
                  tabs d' = empty_tables))"
proof -
  let ?v1 = "\<lparr>pcv_Token = ''aa'', pcv_Ticket = ''t1'', pcv_VoteBit = ''2'', pcv_Signature = ''s1''\<rparr>"
  let ?v2 = "\<lparr>pcv_Token = ''aa'', pcv_Ticket = ''t2'', pcv_VoteBit = ''1'', pcv_Signature = ''s2''\<rparr>"
  let ?cd = "fail_codec\<lparr>DecodeBallot := (\<lambda>p. Inr \<lparr>b_Votes = [?v1, ?v2]\<rparr>)\<rparr>"
  have dec: "DecodeBallot ?cd ''ballot'' = Inr \<lparr>b_Votes = [?v1, ?v2]\<rparr>"
    by simp
  have good: "Exec ?cd \<lparr>tabs = empty_tables, faults = []\<rparr> CmdBallot ''ballot'' ''receipts'' =
         ((''receipts'', None),
          \<lparr>tabs = empty_tables
             \<lparr>cast_votes := [\<lparr>cv_Token = ''aa'', cv_Ticket = ''t1'', cv_VoteBit = ''2'',
                               cv_Signature = ''s1'', cv_TokenVoteBit = ''aa2''\<rparr>,
                              \<lparr>cv_Token = ''aa'', cv_Ticket = ''t2'', cv_VoteBit = ''1'',
                               cv_Signature = ''s2'', cv_TokenVoteBit = ''aa1''\<rparr>]\<rparr>,
            faults = []\<rparr>)"
    using ballot_all_or_nothing [OF dec, of "\<lparr>tabs = empty_tables, faults = []\<rparr>" "''receipts''"]
    by (simp add: convertCastVoteFromFonero_def empty_tables_def)
  have bad: "\<exists>err d'. Exec ?cd \<lparr>tabs = empty_tables, faults = [False, True]\<rparr> CmdBallot ''ballot'' ''receipts'' =
                (([], Some err), d') \<and> tabs d' = empty_tables"
    using ballot_all_or_nothing [OF dec, of "\<lparr>tabs = empty_tables, faults = [False, True]\<rparr>" "''receipts''"]
    by simp
  from good bad show ?thesis unfolding Let_def by blast
qed


end
